theory Spec2Isabelle
  imports Main "HOL-Library.Word"
begin

section \<open>Values shared by the whole transport\<close>

text \<open>
  A Go \<^verbatim>\<open>byte\<close> is an 8-bit word and a \<^verbatim>\<open>[]byte\<close> a list of them. A Go
  \<^verbatim>\<open>string\<close> that only carries ASCII text (hex, base64, protocol names) is a
  \<^typ>\<open>string\<close>.
\<close>

type_synonym byte = "8 word"
type_synonym bytes = "byte list"

text \<open>
  Go errors are values. The sentinels the sources name keep their names;
  \<^verbatim>\<open>errors.New(msg)\<close> is \<open>errors_New msg\<close>; \<^verbatim>\<open>fmt.Errorf("msg: %w", err)\<close> is
  \<open>Errorf msg (Some err)\<close>, and \<open>Errorf msg None\<close> is an \<^verbatim>\<open>Errorf\<close> that wraps nothing
  (no \<^verbatim>\<open>%w\<close>, or a nil operand): either way \<^verbatim>\<open>fmt.Errorf\<close> returns a non-nil error.
  \<open>Panic\<close> is a run-time panic (an index out of range). The remaining constructors
  are the failures of the codecs below. A nil-able \<^verbatim>\<open>error\<close> is an
  \<open>error option\<close>, a result \<^verbatim>\<open>(T, error)\<close> is \<open>error + T\<close>.
\<close>

datatype error =
    io_EOF
  | network_ErrReset
  | errHashUnavailable
  | ErrProtocolNotFound
  | ErrEmptyMultibase
  | ErrUnmodelledMultibase char
  | CorruptInputError
  | ErrUnderflow
  | ErrOverflow
  | ErrNotMinimal
  | ErrTooShort
  | ErrDigestTooLong
  | ErrLengthExceedsBuffer
  | ErrInconsistentLen
  | errMalformedInterspersedHex
  | errors_New string
  | Errorf string "error option"
  | Panic string

section \<open>Codecs the fingerprint functions call\<close>

subsection \<open>Colon-interspersed hex (package internal/encoding)\<close>

text \<open>
  One hex digit as \<^verbatim>\<open>encoding/hex\<close> reads it: both letter cases are digits.
\<close>

definition fromHexChar :: "char \<Rightarrow> nat option" where
  "fromHexChar c =
     (let n = (of_char c :: nat)
      in if 48 \<le> n \<and> n \<le> 57 then Some (n - 48)
         else if 97 \<le> n \<and> n \<le> 102 then Some (n - 87)
         else if 65 \<le> n \<and> n \<le> 70 then Some (n - 55)
         else None)"

definition hex_byte :: "char \<Rightarrow> char \<Rightarrow> error + byte" where
  "hex_byte h l =
     (case (fromHexChar h, fromHexChar l) of
        (Some a, Some b) \<Rightarrow> Inr (of_nat (16 * a + b))
      | _ \<Rightarrow> Inl errMalformedInterspersedHex)"

text \<open>
  Modelled from the spec: \<^verbatim>\<open>encoding.DecodeInterspersedHexFromASCIIString\<close>, a
  function of this repository's package \<^verbatim>\<open>internal/encoding\<close> whose file is not
  among the sources (transport.go calls it under the spelling
  \<^verbatim>\<open>DecodeInterpersedHexFromASCIIString\<close>; both calls are taken to be this one
  function). The spec says only that it parses "the \<^verbatim>\<open>aa:bb:...\<close> form": pairs of
  hex digits, one colon between two pairs. The empty string is the form of the
  empty digest; a lone digit, a missing or doubled separator, a trailing colon and
  a character that is no hex digit are errors.
\<close>

fun DecodeInterspersedHexFromASCIIString :: "string \<Rightarrow> error + bytes" where
  "DecodeInterspersedHexFromASCIIString [] = Inr []"
| "DecodeInterspersedHexFromASCIIString [h, l] =
     (case hex_byte h l of Inl e \<Rightarrow> Inl e | Inr b \<Rightarrow> Inr [b])"
| "DecodeInterspersedHexFromASCIIString (h # l # c # rest) =
     (if c \<noteq> CHR '':'' \<or> rest = [] then Inl errMalformedInterspersedHex
      else case hex_byte h l of
             Inl e \<Rightarrow> Inl e
           | Inr b \<Rightarrow>
              (case DecodeInterspersedHexFromASCIIString rest of
                 Inl e \<Rightarrow> Inl e
               | Inr bs \<Rightarrow> Inr (b # bs)))"
| "DecodeInterspersedHexFromASCIIString [h] = Inl errMalformedInterspersedHex"

text \<open>
  The form itself, as pion writes a fingerprint: two lower-case hex digits per
  byte, a colon between bytes, nothing for the empty digest.
\<close>

definition hexdigit :: "nat \<Rightarrow> char" where
  "hexdigit n = ''0123456789abcdef'' ! n"

fun interspersed_hex :: "bytes \<Rightarrow> string" where
  "interspersed_hex [] = []"
| "interspersed_hex [b] = [hexdigit (unat b div 16), hexdigit (unat b mod 16)]"
| "interspersed_hex (b # bs) =
     hexdigit (unat b div 16) # hexdigit (unat b mod 16) # CHR '':'' # interspersed_hex bs"

subsection \<open>Unsigned varints (go-varint)\<close>

text \<open>
  \<^verbatim>\<open>varint.PutUvarint\<close>: seven bits per byte, least significant group first, the
  top bit set on every byte but the last. Codes and lengths are \<^verbatim>\<open>uint64\<close>
  values, here naturals.
\<close>

fun PutUvarint :: "nat \<Rightarrow> bytes" where
  "PutUvarint x =
     (if x < 128 then [of_nat x] else of_nat (x mod 128 + 128) # PutUvarint (x div 128))"

declare PutUvarint.simps [simp del]

text \<open>
  \<^verbatim>\<open>varint.FromUvarint\<close>, the loop over the buffer with its index \<open>i\<close> and the
  value \<open>x\<close> read so far (the shift is \<open>7 * i\<close>; the groups do not overlap, so the
  bitwise or is an addition). It refuses a tenth byte, a ninth byte that announces
  another one, a final zero byte after the first position, and a buffer that ends
  inside the number.
\<close>

fun FromUvarint_loop :: "nat \<Rightarrow> nat \<Rightarrow> bytes \<Rightarrow> error + (nat \<times> bytes)" where
  "FromUvarint_loop i x [] = Inl ErrUnderflow"
| "FromUvarint_loop i x (b # buf) =
     (if (i = 8 \<and> unat b \<ge> 128) \<or> i \<ge> 9 then Inl ErrOverflow
      else if unat b < 128
           then (if b = 0 \<and> i > 0 then Inl ErrNotMinimal
                 else Inr (x + unat b * 2 ^ (7 * i), buf))
           else FromUvarint_loop (i + 1) (x + (unat b - 128) * 2 ^ (7 * i)) buf)"

definition uvarint :: "bytes \<Rightarrow> error + (nat \<times> bytes)" where
  "uvarint buf = FromUvarint_loop 0 0 buf"

subsection \<open>Unpadded URL-safe base64 (encoding/base64, RawURLEncoding)\<close>

definition encodeURL :: "nat \<Rightarrow> char" where
  "encodeURL i = ''ABCDEFGHIJKLMNOPQRSTUVWXYZabcdefghijklmnopqrstuvwxyz0123456789-_'' ! i"

definition decodeMap :: "char \<Rightarrow> nat option" where
  "decodeMap c =
     (let n = (of_char c :: nat)
      in if 65 \<le> n \<and> n \<le> 90 then Some (n - 65)
         else if 97 \<le> n \<and> n \<le> 122 then Some (n - 71)
         else if 48 \<le> n \<and> n \<le> 57 then Some (n + 4)
         else if n = 45 then Some 62
         else if n = 95 then Some 63
         else None)"

text \<open>
  Encoding packs three bytes into a 24-bit value \<open>val\<close> and writes its four 6-bit
  groups; a rest of one or two bytes gives two or three characters and no padding.
  Shifts and masks are written as division and remainder.
\<close>

fun base64_EncodeToString :: "bytes \<Rightarrow> string" where
  "base64_EncodeToString [] = []"
| "base64_EncodeToString [a] =
     (let val = unat a * 65536
      in [encodeURL (val div 262144 mod 64), encodeURL (val div 4096 mod 64)])"
| "base64_EncodeToString [a, b] =
     (let val = unat a * 65536 + unat b * 256
      in [encodeURL (val div 262144 mod 64), encodeURL (val div 4096 mod 64),
          encodeURL (val div 64 mod 64)])"
| "base64_EncodeToString (a # b # c # src) =
     (let val = unat a * 65536 + unat b * 256 + unat c
      in encodeURL (val div 262144 mod 64) # encodeURL (val div 4096 mod 64) #
         encodeURL (val div 64 mod 64) # encodeURL (val mod 64) #
         base64_EncodeToString src)"

text \<open>
  Decoding four characters at a time; a rest of one character is corrupt, a rest
  of two or three gives one or two bytes, and the unused low bits are not checked
  (the encoding is not strict). The conversion to \<open>byte\<close> truncates, as Go's does.
\<close>

fun decodeQuantum :: "string \<Rightarrow> error + bytes" where
  "decodeQuantum [] = Inr []"
| "decodeQuantum [c0] = Inl CorruptInputError"
| "decodeQuantum [c0, c1] =
     (case (decodeMap c0, decodeMap c1) of
        (Some d0, Some d1) \<Rightarrow>
          (let val = d0 * 262144 + d1 * 4096 in Inr [of_nat (val div 65536)])
      | _ \<Rightarrow> Inl CorruptInputError)"
| "decodeQuantum [c0, c1, c2] =
     (case (decodeMap c0, decodeMap c1, decodeMap c2) of
        (Some d0, Some d1, Some d2) \<Rightarrow>
          (let val = d0 * 262144 + d1 * 4096 + d2 * 64
           in Inr [of_nat (val div 65536), of_nat (val div 256)])
      | _ \<Rightarrow> Inl CorruptInputError)"
| "decodeQuantum (c0 # c1 # c2 # c3 # src) =
     (case (decodeMap c0, decodeMap c1, decodeMap c2, decodeMap c3) of
        (Some d0, Some d1, Some d2, Some d3) \<Rightarrow>
          (let val = d0 * 262144 + d1 * 4096 + d2 * 64 + d3
           in case decodeQuantum src of
                Inl e \<Rightarrow> Inl e
              | Inr out \<Rightarrow>
                  Inr (of_nat (val div 65536) # of_nat (val div 256) # of_nat val # out))
      | _ \<Rightarrow> Inl CorruptInputError)"

text \<open>\<^verbatim>\<open>DecodeString\<close> skips line feeds and carriage returns before decoding.\<close>

definition base64_DecodeString :: "string \<Rightarrow> error + bytes" where
  "base64_DecodeString s =
     decodeQuantum (filter (\<lambda>c. c \<noteq> CHR 0x0A \<and> c \<noteq> CHR 0x0D) s)"

subsection \<open>Multibase, multihash, multiaddr (multiformats libraries)\<close>

text \<open>
  \<^verbatim>\<open>multibase.Encode\<close> with \<^verbatim>\<open>Base64url\<close> puts the prefix \<^verbatim>\<open>u\<close> before the
  unpadded URL-safe base64 text. \<^verbatim>\<open>multibase.Decode\<close> dispatches on the first
  character; only the base64url branch is written out, because go-multiaddr always
  renders a certhash value in base64url. Any other prefix ends in
  \<open>ErrUnmodelledMultibase\<close>, which stands for the branches left out.
\<close>

datatype Encoding = Base64url

definition multibase_Encode :: "Encoding \<Rightarrow> bytes \<Rightarrow> error + string" where
  "multibase_Encode base data' =
     (case base of Base64url \<Rightarrow> Inr (CHR ''u'' # base64_EncodeToString data'))"

definition multibase_Decode :: "string \<Rightarrow> error + (Encoding \<times> bytes)" where
  "multibase_Decode data' =
     (case data' of
        [] \<Rightarrow> Inl ErrEmptyMultibase
      | enc # rest \<Rightarrow>
          if enc = CHR ''u''
          then (case base64_DecodeString rest of
                  Inl e \<Rightarrow> Inl e
                | Inr bs \<Rightarrow> Inr (Base64url, bs))
          else Inl (ErrUnmodelledMultibase enc))"

text \<open>The multihash code of SHA2-256.\<close>

definition SHA2_256 :: nat where
  "SHA2_256 = 0x12"

text \<open>
  \<^verbatim>\<open>mh.DecodedMultihash\<close> without its \<^verbatim>\<open>Name\<close> field (a table lookup on the
  code that nothing here reads).
\<close>

record DecodedMultihash =
  Code :: nat
  Length :: nat
  Digest :: bytes

text \<open>
  \<^verbatim>\<open>mh.Encode\<close>: the varint of the code, the varint of the digest's length, the
  digest. It checks neither the code nor the length against each other.
\<close>

definition mh_Encode :: "bytes \<Rightarrow> nat \<Rightarrow> error + bytes" where
  "mh_Encode buf code = Inr (PutUvarint code @ PutUvarint (length buf) @ buf)"

definition readMultihashFromBuf :: "bytes \<Rightarrow> error + (nat \<times> nat \<times> bytes)" where
  "readMultihashFromBuf buf =
     (if length buf < 2 then Inl ErrTooShort
      else case uvarint buf of
        Inl e \<Rightarrow> Inl e
      | Inr (code, buf1) \<Rightarrow>
         (case uvarint buf1 of
            Inl e \<Rightarrow> Inl e
          | Inr (len, buf2) \<Rightarrow>
              if len > 2147483647 then Inl ErrDigestTooLong
              else if len > length buf2 then Inl ErrLengthExceedsBuffer
              else Inr ((length buf - length buf2) + len, code, take len buf2)))"

definition mh_Decode :: "bytes \<Rightarrow> error + DecodedMultihash" where
  "mh_Decode buf =
     (case readMultihashFromBuf buf of
        Inl e \<Rightarrow> Inl e
      | Inr (rlen, code, hdig) \<Rightarrow>
          if length buf \<noteq> rlen then Inl ErrInconsistentLen
          else Inr \<lparr>Code = code, Length = length hdig, Digest = hdig\<rparr>)"

text \<open>
  A multiaddress is its list of components, each a protocol code with the text of
  its value; for a certhash component the text is the multibase string.
  \<^verbatim>\<open>ValueForProtocol\<close> returns the value of the first component with the code.
\<close>

type_synonym Multiaddr = "(nat \<times> string) list"

definition P_CERTHASH :: nat where
  "P_CERTHASH = 0x01D2"

fun ValueForProtocol :: "Multiaddr \<Rightarrow> nat \<Rightarrow> error + string" where
  "ValueForProtocol [] code = Inl ErrProtocolNotFound"
| "ValueForProtocol ((c, v) # rest) code =
     (if c = code then Inr v else ValueForProtocol rest code)"

section \<open>Fingerprints (internal/fingerprint.go)\<close>

text \<open>
  The hash algorithms of \<^verbatim>\<open>crypto.Hash\<close> that DTLS fingerprints use. The hash
  functions themselves belong to Go's crypto library: a registry gives, for each
  algorithm linked into the binary, its digest function (\<open>None\<close>: not available).
\<close>

datatype crypto_Hash = MD5 | SHA1 | SHA224 | SHA256 | SHA384 | SHA512

type_synonym hash_registry = "crypto_Hash \<Rightarrow> (bytes \<Rightarrow> bytes) option"

record x509_Certificate =
  Raw :: bytes

definition Fingerprint :: "hash_registry \<Rightarrow> x509_Certificate \<Rightarrow> crypto_Hash \<Rightarrow> error + bytes" where
  "Fingerprint reg cert algo =
     (case reg algo of
        None \<Rightarrow> Inl errHashUnavailable
      | Some h \<Rightarrow> Inr (h (Raw cert)))"

definition DecodeRemoteFingerprint :: "Multiaddr \<Rightarrow> error + DecodedMultihash" where
  "DecodeRemoteFingerprint maddr =
     (case ValueForProtocol maddr P_CERTHASH of
        Inl err \<Rightarrow> Inl err
      | Inr remoteFingerprintMultibase \<Rightarrow>
         (case multibase_Decode remoteFingerprintMultibase of
            Inl err \<Rightarrow> Inl err
          | Inr (_, data') \<Rightarrow> mh_Decode data'))"

text \<open>\<^verbatim>\<open>webrtc.DTLSFingerprint\<close>: the algorithm's SDP name and the hex value.\<close>

record DTLSFingerprint =
  Algorithm :: string
  Value :: string

definition EncodeDTLSFingerprint :: "DTLSFingerprint \<Rightarrow> error + string" where
  "EncodeDTLSFingerprint fp =
     (case DecodeInterspersedHexFromASCIIString (Value fp) of
        Inl err \<Rightarrow> Inl err
      | Inr digest \<Rightarrow>
         (case mh_Encode digest SHA2_256 of
            Inl err \<Rightarrow> Inl err
          | Inr encoded \<Rightarrow> multibase_Encode Base64url encoded))"

section \<open>Transport configuration (transport.go)\<close>

text \<open>
  \<^verbatim>\<open>time.Duration\<close> is an int64 count of nanoseconds. The option only compares
  durations with each other and with 0, so an \<^typ>\<open>int\<close> carries them without any
  wrap-around to write out.
\<close>

type_synonym Duration = int

definition Second :: Duration where
  "Second = 1000000000"

definition DefaultDisconnectedTimeout :: Duration where
  "DefaultDisconnectedTimeout = 5 * Second"

definition DefaultFailedTimeout :: Duration where
  "DefaultFailedTimeout = 25 * Second"

definition DefaultKeepaliveTimeout :: Duration where
  "DefaultKeepaliveTimeout = 2 * Second"

record IceTimeouts =
  Disconnect :: Duration
  Failed :: Duration
  Keepalive :: Duration

text \<open>
  \<^verbatim>\<open>webrtc.Certificate\<close> is a type of pion; the transport only needs the DER bytes of
  the X.509 certificate it wraps. \<^verbatim>\<open>webrtc.Configuration\<close> keeps the list of
  certificates.
\<close>

record Certificate =
  x509Cert_Raw :: bytes

record Configuration =
  Certificates :: "Certificate list"

type_synonym PrivKey = bytes
type_synonym PubKey = bytes
type_synonym PSK = bytes
type_synonym peer_ID = string

record WebRTCTransport =
  webrtcConfig :: Configuration
  privKey :: PrivKey
  localPeerId :: peer_ID
  peerConnectionTimeouts :: IceTimeouts
  maxInFlightConnections :: "32 word"

text \<open>
  An \<^verbatim>\<open>Option\<close> is a \<^verbatim>\<open>func(*WebRTCTransport) error\<close>: it mutates the transport
  and may fail. One call of an option is a function from the transport to the
  updated transport, or the error; the list \<^verbatim>\<open>New\<close> runs through is the list of
  these calls in order. An option that is a closure over a variable it assigns to
  is written with that variable as an argument and as a result, and the calls of
  one such option value are chained through it.
\<close>

type_synonym Option = "WebRTCTransport \<Rightarrow> error + WebRTCTransport"

text \<open>
  \<^verbatim>\<open>WithPeerConnectionIceTimeouts\<close> returns a closure over its parameter
  \<^verbatim>\<open>timeouts\<close>, and the closure assigns to that variable: the argument
  \<open>timeouts\<close> is the value the variable has when the closure is called (at its
  first call, the value given to \<^verbatim>\<open>WithPeerConnectionIceTimeouts\<close>), and the first
  component of the result is the value it has afterwards, with which the next call
  of the same closure starts. Line by line: the three zero fields are overwritten
  from the transport first, then the two comparisons run on the overwritten
  values, then the transport is assigned.
\<close>

definition WithPeerConnectionIceTimeouts ::
    "IceTimeouts \<Rightarrow> WebRTCTransport \<Rightarrow> IceTimeouts \<times> (error + WebRTCTransport)" where
  "WithPeerConnectionIceTimeouts timeouts t =
     (let timeouts1 = (if Disconnect timeouts = 0
                       then timeouts\<lparr>Disconnect := Disconnect (peerConnectionTimeouts t)\<rparr>
                       else timeouts);
          timeouts2 = (if Failed timeouts1 = 0
                       then timeouts1\<lparr>Failed := Failed (peerConnectionTimeouts t)\<rparr>
                       else timeouts1);
          timeouts3 = (if Keepalive timeouts2 = 0
                       then timeouts2\<lparr>Keepalive := Keepalive (peerConnectionTimeouts t)\<rparr>
                       else timeouts2)
      in (timeouts3,
          if Disconnect timeouts3 \<noteq> 0 \<and> Failed timeouts3 \<noteq> 0
             \<and> Failed timeouts3 < Disconnect timeouts3
          then Inl (Errorf ''disconnect timeout cannot be greater than failed timeout'' None)
          else if Disconnect timeouts3 \<noteq> 0 \<and> Keepalive timeouts3 \<noteq> 0
             \<and> Disconnect timeouts3 \<le> Keepalive timeouts3
          then Inl (Errorf ''keepalive timeout cannot be greater than or equal to failed timeout'' None)
          else Inr (t\<lparr>peerConnectionTimeouts := timeouts3\<rparr>)))"

definition WithListenerMaxInFlightConnections :: "32 word \<Rightarrow> Option" where
  "WithListenerMaxInFlightConnections m t = Inr (t\<lparr>maxInFlightConnections := m\<rparr>)"

text \<open>
  What \<^verbatim>\<open>New\<close> gets from outside the repository: the peer ID derived from the
  private key, the generated ECDSA key, the generated certificate and the Noise
  transport, each of which may fail. \<^verbatim>\<open>DefaultMaxInFlightConnections\<close> is a
  constant of the listener's file and is taken as a parameter too.
\<close>

record new_env =
  env_IDFromPrivateKey :: "error + peer_ID"
  env_GenerateKey :: "error option"
  env_GenerateCertificate :: "error + Certificate"
  env_noise_New :: "error option"
  env_DefaultMaxInFlightConnections :: "32 word"

text \<open>The loop \<^verbatim>\<open>for _, opt := range opts\<close>: the first failing option ends it.\<close>

fun apply_opts :: "Option list \<Rightarrow> WebRTCTransport \<Rightarrow> error + WebRTCTransport" where
  "apply_opts [] t = Inr t"
| "apply_opts (opt # opts) t =
     (case opt t of Inl err \<Rightarrow> Inl err | Inr t' \<Rightarrow> apply_opts opts t')"

text \<open>
  \<^verbatim>\<open>New\<close>. A \<^verbatim>\<open>pnet.PSK\<close> is a byte slice: \<open>None\<close> is the nil slice, \<open>Some k\<close> any
  other one (the empty non-nil slice included). The connection gater and the
  resource manager are only stored, so they do not appear.
\<close>

definition New :: "new_env \<Rightarrow> PrivKey \<Rightarrow> PSK option \<Rightarrow> Option list \<Rightarrow> error + WebRTCTransport" where
  "New env privKey' psk opts =
     (if psk \<noteq> None
      then Inl (Errorf ''WebRTC doesn't support private networks yet'' None)
      else case env_IDFromPrivateKey env of
        Inl err \<Rightarrow> Inl (Errorf ''get local peer ID'' (Some err))
      | Inr localPeerId' \<Rightarrow>
       (case env_GenerateKey env of
          Some err \<Rightarrow> Inl (Errorf ''generate key for cert'' (Some err))
        | None \<Rightarrow>
         (case env_GenerateCertificate env of
            Inl err \<Rightarrow> Inl (Errorf ''generate certificate'' (Some err))
          | Inr cert \<Rightarrow>
           (case env_noise_New env of
              Some err \<Rightarrow> Inl (Errorf ''unable to create noise transport'' (Some err))
            | None \<Rightarrow>
                apply_opts opts
                  \<lparr>webrtcConfig = \<lparr>Certificates = [cert]\<rparr>,
                   privKey = privKey',
                   localPeerId = localPeerId',
                   peerConnectionTimeouts =
                     \<lparr>Disconnect = DefaultDisconnectedTimeout,
                      Failed = DefaultFailedTimeout,
                      Keepalive = DefaultKeepaliveTimeout\<rparr>,
                   maxInFlightConnections = env_DefaultMaxInFlightConnections env\<rparr>))))"

section \<open>Noise prologue and handshake (transport.go)\<close>

text \<open>
  \<^verbatim>\<open>Certificate.GetFingerprints\<close> is pion's: it returns one fingerprint, of
  algorithm \<^verbatim>\<open>sha-256\<close>, whose value is the colon-interspersed lower-case hex of
  the SHA-256 digest of the certificate's DER bytes, and fails when SHA-256 is not
  available.
\<close>

definition GetFingerprints :: "hash_registry \<Rightarrow> Certificate \<Rightarrow> error + DTLSFingerprint list" where
  "GetFingerprints reg c =
     (case reg SHA256 of
        None \<Rightarrow> Inl errHashUnavailable
      | Some h \<Rightarrow>
          Inr [\<lparr>Algorithm = ''sha-256'', Value = interspersed_hex (h (x509Cert_Raw c))\<rparr>])"

text \<open>
  \<^verbatim>\<open>getCertificateFingerprint\<close>: \<^verbatim>\<open>Certificates[0]\<close> and \<^verbatim>\<open>fps[0]\<close> panic on an
  empty slice.
\<close>

definition getCertificateFingerprint :: "hash_registry \<Rightarrow> WebRTCTransport \<Rightarrow> error + DTLSFingerprint" where
  "getCertificateFingerprint reg t =
     (case Certificates (webrtcConfig t) of
        [] \<Rightarrow> Inl (Panic ''index out of range'')
      | c # _ \<Rightarrow>
         (case GetFingerprints reg c of
            Inl err \<Rightarrow> Inl err
          | Inr fps \<Rightarrow>
             (case fps of
                [] \<Rightarrow> Inl (Panic ''index out of range'')
              | fp # _ \<Rightarrow> Inr fp)))"

text \<open>
  Of a \<^verbatim>\<open>webrtc.PeerConnection\<close> the code reads the remote certificate of its
  SCTP transport.
\<close>

record PeerConnection =
  RemoteCertificate :: bytes

text \<open>
  The \<^verbatim>\<open>select\<close> in \<^verbatim>\<open>dial\<close> takes whichever channel is ready: the error
  channel of \<^verbatim>\<open>AwaitPeerConnectionOpen\<close> (with nil or an error) or the context's.
\<close>

datatype await = ErrC "error option" | CtxDone

text \<open>
  The calls a claim counts are logged as events, in the order they happen:
  \<^verbatim>\<open>scope.Done()\<close>, a peer connection returned by \<^verbatim>\<open>api.NewPeerConnection\<close>,
  \<^verbatim>\<open>pc.Close()\<close>, \<^verbatim>\<open>tConn.Close()\<close>, and the two Noise entry points.
\<close>

datatype event =
    ScopeDone
  | PeerConnectionCreated
  | PeerConnectionClose
  | ConnectionClose
  | SecureInbound
  | SecureOutbound

text \<open>
  Everything \<^verbatim>\<open>Dial\<close>, \<^verbatim>\<open>dial\<close> and the handshake get from outside their own
  bodies: the crypto registry, the X.509 parser, the Noise transport, the resource
  manager, the multiaddress and UDP resolvers, pion, and the helpers of this
  repository's \<^verbatim>\<open>internal\<close> package and connection file whose sources are not
  present. Each is the outcome of the call: \<open>None\<close> is a nil error. The table
  \<^verbatim>\<open>GetSupportedSDPHash\<close> is one of them; \<open>None\<close> is its \<^verbatim>\<open>ok = false\<close>.
\<close>

record environment =
  env_hashes :: hash_registry
  env_ParseCertificate :: "bytes \<Rightarrow> error + x509_Certificate"
  env_WithSessionOptions :: "error option"
  env_SecureInbound :: "bytes \<Rightarrow> error + PubKey"
  env_SecureOutbound :: "bytes \<Rightarrow> error + PubKey"
  env_OpenConnection :: "error option"
  env_SetPeer :: "error option"
  env_GetSupportedSDPHash :: "nat \<Rightarrow> crypto_Hash option"
  env_DialArgs :: "error option"
  env_ResolveUDPAddr :: "error option"
  env_NewPeerConnection :: "error + PeerConnection"
  env_CreateDataChannel :: "error option"
  env_CreateOffer :: "error option"
  env_SetLocalDescription :: "error option"
  env_RenderServerSdp :: "error option"
  env_SetRemoteDescription :: "error option"
  env_AwaitPeerConnectionOpen :: await
  env_GetDetachedChannel :: "error option"
  env_GetSelectedCandidatePair :: "bool \<times> error option"
  env_FromNetAddr :: "error option"
  env_newConnection :: "error option"

definition bytes_of_string :: "string \<Rightarrow> bytes" where
  "bytes_of_string s = map (\<lambda>c. of_nat (of_char c)) s"

definition generateNoisePrologue ::
    "environment \<Rightarrow> WebRTCTransport \<Rightarrow> PeerConnection \<Rightarrow> crypto_Hash \<Rightarrow> bool \<Rightarrow> error + bytes" where
  "generateNoisePrologue env t pc hash inbound =
     (case env_ParseCertificate env (RemoteCertificate pc) of
        Inl err \<Rightarrow> Inl err
      | Inr cert \<Rightarrow>
     (case getCertificateFingerprint (env_hashes env) t of
        Inl err \<Rightarrow> Inl err
      | Inr localFp \<Rightarrow>
     (case Fingerprint (env_hashes env) cert hash of
        Inl err \<Rightarrow> Inl err
      | Inr remoteFpBytes \<Rightarrow>
     (case DecodeInterspersedHexFromASCIIString (Value localFp) of
        Inl err \<Rightarrow> Inl err
      | Inr localFpBytes \<Rightarrow>
     (case mh_Encode localFpBytes SHA2_256 of
        Inl err \<Rightarrow> Inl err
      | Inr localEncoded \<Rightarrow>
     (case mh_Encode remoteFpBytes SHA2_256 of
        Inl err \<Rightarrow> Inl err
      | Inr remoteEncoded \<Rightarrow>
          (let result = bytes_of_string ''libp2p-webrtc-noise:''
           in if inbound
              then Inr ((result @ remoteEncoded) @ localEncoded)
              else Inr ((result @ localEncoded) @ remoteEncoded))))))))"

text \<open>
  \<^verbatim>\<open>noiseHandshake\<close> returns the remote public key of the secured connection, or
  the error, together with the Noise entry point it called, if any.
\<close>

definition noiseHandshake ::
    "environment \<Rightarrow> WebRTCTransport \<Rightarrow> PeerConnection \<Rightarrow> peer_ID \<Rightarrow> crypto_Hash \<Rightarrow> bool
       \<Rightarrow> (error + PubKey) \<times> event list" where
  "noiseHandshake env t pc peer hash inbound =
     (case generateNoisePrologue env t pc hash inbound of
        Inl err \<Rightarrow> (Inl (Errorf ''generate prologue'' (Some err)), [])
      | Inr prologue \<Rightarrow>
     (case env_WithSessionOptions env of
        Some err \<Rightarrow> (Inl (Errorf ''instantiate transport'' (Some err)), [])
      | None \<Rightarrow>
          if inbound
          then (case env_SecureOutbound env prologue of
                  Inl err \<Rightarrow>
                    (Inl (Errorf ''failed to secure inbound [noise outbound]'' (Some err)),
                     [SecureOutbound])
                | Inr secureConn \<Rightarrow> (Inr secureConn, [SecureOutbound]))
          else (case env_SecureInbound env prologue of
                  Inl err \<Rightarrow>
                    (Inl (Errorf ''failed to secure outbound [noise inbound]'' (Some err)),
                     [SecureInbound])
                | Inr secureConn \<Rightarrow> (Inr secureConn, [SecureInbound]))))"

section \<open>Dialing (transport.go)\<close>

text \<open>
  Modelled from the spec: the connection object of this repository's connection
  file, which is not among the sources. The spec gives it a remote public key that
  is unknown until Noise completes and a lifetime that ends when it is closed; it
  holds the scope that \<^verbatim>\<open>dial\<close> hands to \<^verbatim>\<open>newConnection\<close>.
\<close>

record connection =
  remotePublicKey :: "PubKey option"
  closed :: bool

text \<open>
  Modelled from the spec: \<^verbatim>\<open>Close\<close> of the connection, not among the sources.
  "Closing the connection closes all live streams and releases the scope exactly
  once": the first \<^verbatim>\<open>Close\<close> calls \<^verbatim>\<open>scope.Done()\<close>, a later one does nothing.
\<close>

definition connection_Close :: "connection \<Rightarrow> connection \<times> event list" where
  "connection_Close c =
     (if closed c then (c, []) else (c\<lparr>closed := True\<rparr>, [ScopeDone]))"

text \<open>
  The body of \<^verbatim>\<open>dial\<close> from the creation of the handshake data channel to its
  last line, once the peer connection exists. It returns what the named results
  \<^verbatim>\<open>tConn\<close> and \<^verbatim>\<open>err\<close> hold at the \<^verbatim>\<open>return\<close>, and the events. When the Noise
  handshake fails the code returns \<^verbatim>\<open>conn, err\<close>: both results are non-nil.
\<close>

definition dial_after_pc ::
    "environment \<Rightarrow> WebRTCTransport \<Rightarrow> PeerConnection \<Rightarrow> peer_ID \<Rightarrow> crypto_Hash
       \<Rightarrow> connection option \<times> error option \<times> event list" where
  "dial_after_pc env t pc p remoteHashFunction =
     (case env_CreateDataChannel env of
        Some err \<Rightarrow> (None, Some (Errorf ''create datachannel'' (Some err)), [])
      | None \<Rightarrow>
     (case env_CreateOffer env of
        Some err \<Rightarrow> (None, Some (Errorf ''create offer'' (Some err)), [])
      | None \<Rightarrow>
     (case env_SetLocalDescription env of
        Some err \<Rightarrow> (None, Some (Errorf ''set local description'' (Some err)), [])
      | None \<Rightarrow>
     (case env_RenderServerSdp env of
        Some err \<Rightarrow> (None, Some (Errorf ''render server SDP'' (Some err)), [])
      | None \<Rightarrow>
     (case env_SetRemoteDescription env of
        Some err \<Rightarrow> (None, Some (Errorf ''set remote description'' (Some err)), [])
      | None \<Rightarrow>
     (case env_AwaitPeerConnectionOpen env of
        ErrC (Some err) \<Rightarrow> (None, Some err, [])
      | CtxDone \<Rightarrow> (None, Some (errors_New ''peerconnection opening timed out''), [])
      | ErrC None \<Rightarrow>
     (case env_GetDetachedChannel env of
        Some err \<Rightarrow> (None, Some err, [])
      | None \<Rightarrow>
     (case env_GetSelectedCandidatePair env of
        (False, _) \<Rightarrow>
          (None,
           Some (errors_New ''ice connection did not have selected candidate pair: nil result''),
           [])
      | (True, Some err) \<Rightarrow>
          (None,
           Some (Errorf ''ice connection did not have selected candidate pair: error'' (Some err)),
           [])
      | (True, None) \<Rightarrow>
     (case env_FromNetAddr env of
        Some err \<Rightarrow> (None, Some err, [])
      | None \<Rightarrow>
     (case env_newConnection env of
        Some err \<Rightarrow> (None, Some err, [])
      | None \<Rightarrow>
          (let conn = \<lparr>remotePublicKey = None, closed = False\<rparr>
           in case noiseHandshake env t pc p remoteHashFunction False of
                (Inl err, evs) \<Rightarrow> (Some conn, Some err, evs)
              | (Inr key, evs) \<Rightarrow>
                  (Some (conn\<lparr>remotePublicKey := Some key\<rparr>), None, evs))))))))))))"

text \<open>
  The whole body of \<^verbatim>\<open>dial\<close>: the local \<^verbatim>\<open>pc\<close> and the two named results at
  the \<^verbatim>\<open>return\<close>, with the events so far.
\<close>

definition dial_body ::
    "environment \<Rightarrow> WebRTCTransport \<Rightarrow> Multiaddr \<Rightarrow> peer_ID
       \<Rightarrow> PeerConnection option \<times> connection option \<times> error option \<times> event list" where
  "dial_body env t remoteMultiaddr p =
     (case DecodeRemoteFingerprint remoteMultiaddr of
        Inl err \<Rightarrow> (None, None, Some (Errorf ''decode fingerprint'' (Some err)), [])
      | Inr remoteMultihash \<Rightarrow>
     (case env_GetSupportedSDPHash env (Code remoteMultihash) of
        None \<Rightarrow> (None, None, Some (Errorf ''unsupported hash function'' None), [])
      | Some remoteHashFunction \<Rightarrow>
     (case env_DialArgs env of
        Some err \<Rightarrow> (None, None, Some (Errorf ''generate dial args'' (Some err)), [])
      | None \<Rightarrow>
     (case env_ResolveUDPAddr env of
        Some err \<Rightarrow> (None, None, Some (Errorf ''resolve udp address'' (Some err)), [])
      | None \<Rightarrow>
     (case env_NewPeerConnection env of
        Inl err \<Rightarrow> (None, None, Some (Errorf ''instantiate peerconnection'' (Some err)), [])
      | Inr pc \<Rightarrow>
          (case dial_after_pc env t pc p remoteHashFunction of
             (tConn, err, evs) \<Rightarrow> (Some pc, tConn, err, PeerConnectionCreated # evs)))))))"

record dial_result =
  ret_conn :: "connection option"
  ret_err :: "error option"
  trace :: "event list"

text \<open>
  \<^verbatim>\<open>dial\<close>: its body, then the deferred function, which on an error closes the
  peer connection if there is one and then the returned connection if there is
  one.
\<close>

definition dial :: "environment \<Rightarrow> WebRTCTransport \<Rightarrow> Multiaddr \<Rightarrow> peer_ID \<Rightarrow> dial_result" where
  "dial env t remoteMultiaddr p =
     (case dial_body env t remoteMultiaddr p of
        (pc, tConn', err', evs) \<Rightarrow>
          if err' \<noteq> None
          then (let evs1 = (if pc \<noteq> None then evs @ [PeerConnectionClose] else evs)
                in case tConn' of
                     None \<Rightarrow> \<lparr>ret_conn = None, ret_err = err', trace = evs1\<rparr>
                   | Some c \<Rightarrow>
                       (case connection_Close c of
                          (c', evs2) \<Rightarrow>
                            \<lparr>ret_conn = Some c', ret_err = err',
                             trace = evs1 @ ConnectionClose # evs2\<rparr>))
          else \<lparr>ret_conn = tConn', ret_err = err', trace = evs\<rparr>)"

definition Dial :: "environment \<Rightarrow> WebRTCTransport \<Rightarrow> Multiaddr \<Rightarrow> peer_ID \<Rightarrow> dial_result" where
  "Dial env t remoteMultiaddr p =
     (case env_OpenConnection env of
        Some err' \<Rightarrow> \<lparr>ret_conn = None, ret_err = Some err', trace = []\<rparr>
      | None \<Rightarrow>
     (case env_SetPeer env of
        Some err' \<Rightarrow> \<lparr>ret_conn = None, ret_err = Some err', trace = [ScopeDone]\<rparr>
      | None \<Rightarrow>
          (let d = dial env t remoteMultiaddr p
           in case ret_err d of
                Some err' \<Rightarrow> \<lparr>ret_conn = None, ret_err = Some err', trace = trace d @ [ScopeDone]\<rparr>
              | None \<Rightarrow> d)))"

section \<open>Streams (the stream's read side)\<close>

text \<open>
  The two state fields of a stream. The receive states are the ones the read side
  names; the send states are the three the spec lists (sending, closed, reset).
\<close>

datatype receiveState = receiveStateReceiving | receiveStateDataRead | receiveStateReset

datatype sendState = sendStateSending | sendStateClosed | sendStateReset

datatype Message_Flag = Message_FIN | Message_STOP_SENDING | Message_RESET

record pb_Message =
  Flag :: "Message_Flag option"
  Message :: bytes

text \<open>
  The fields of a stream that \<^verbatim>\<open>Read\<close> and \<^verbatim>\<open>CloseRead\<close> touch under the mutex,
  the messages written to the channel so far, and whether the control-message
  reader has been spawned (the \<^verbatim>\<open>sync.Once\<close>).
\<close>

record stream =
  receiveState :: receiveState
  sendState :: sendState
  nextMessage :: "pb_Message option"
  closeErr :: "error option"
  written :: "pb_Message list"
  controlMessageReaderSpawned :: bool

text \<open>
  Modelled from the spec: \<^verbatim>\<open>processIncomingFlag\<close>, a method of the stream whose
  file is not among the sources. "FIN: receive_state transitions receiving to
  data_read. RESET: receive_state to reset. STOP_SENDING: send_state to closed."
  A message without a flag changes nothing.
\<close>

definition processIncomingFlag :: "Message_Flag option \<Rightarrow> stream \<Rightarrow> stream" where
  "processIncomingFlag flag s =
     (case flag of
        None \<Rightarrow> s
      | Some Message_FIN \<Rightarrow>
          if receiveState s = receiveStateReceiving
          then s\<lparr>receiveState := receiveStateDataRead\<rparr> else s
      | Some Message_RESET \<Rightarrow> s\<lparr>receiveState := receiveStateReset\<rparr>
      | Some Message_STOP_SENDING \<Rightarrow> s\<lparr>sendState := sendStateClosed\<rparr>)"

text \<open>
  Modelled from the spec: \<^verbatim>\<open>writeMsgOnWriter\<close>, the stream's write of one message
  to the channel, not among the sources. Its outcome is a parameter; a successful
  write appends the message to what was written.
\<close>

definition writeMsgOnWriter :: "error option \<Rightarrow> pb_Message \<Rightarrow> stream \<Rightarrow> error option \<times> stream" where
  "writeMsgOnWriter outcome msg s =
     (case outcome of
        Some e \<Rightarrow> (Some e, s)
      | None \<Rightarrow> (None, s\<lparr>written := written s @ [msg]\<rparr>))"

text \<open>
  \<^verbatim>\<open>CloseRead\<close>, from the sources: the state is set to reset whatever the write
  of STOP_SENDING returned, and the control-message reader is spawned once.
\<close>

definition CloseRead :: "error option \<Rightarrow> stream \<Rightarrow> error option \<times> stream" where
  "CloseRead outcome s =
     (case (if receiveState s = receiveStateReceiving \<and> closeErr s = None
            then (case writeMsgOnWriter outcome
                         \<lparr>Flag = Some Message_STOP_SENDING, Message = []\<rparr> s of
                    (e, s1) \<Rightarrow> (e, s1\<lparr>receiveState := receiveStateReset\<rparr>))
            else (None, s)) of
        (err, s2) \<Rightarrow> (err, s2\<lparr>controlMessageReaderSpawned := True\<rparr>))"

text \<open>
  Modelled from the spec: \<^verbatim>\<open>Write\<close> of the stream, whose file is not among the
  sources. "Writes are rejected when send_state is not sending." An accepted write
  sends the data as one message and leaves both states as they are.
\<close>

definition Write :: "error option \<Rightarrow> bytes \<Rightarrow> stream \<Rightarrow> error option \<times> stream" where
  "Write outcome b s =
     (if sendState s \<noteq> sendStateSending
      then (Some (errors_New ''write on a stream that is not sending''), s)
      else writeMsgOnWriter outcome \<lparr>Flag = None, Message = b\<rparr> s)"

text \<open>
  Modelled from the spec: \<^verbatim>\<open>CloseWrite\<close> of the stream, not among the sources.
  "CloseWrite sends FIN and transitions send_state to closed."
\<close>

definition CloseWrite :: "error option \<Rightarrow> stream \<Rightarrow> error option \<times> stream" where
  "CloseWrite outcome s =
     (case writeMsgOnWriter outcome \<lparr>Flag = Some Message_FIN, Message = []\<rparr> s of
        (e, s1) \<Rightarrow> (e, s1\<lparr>sendState := sendStateClosed\<rparr>))"

text \<open>
  Modelled from the spec: \<^verbatim>\<open>Reset\<close> of the stream, not among the sources.
  "Reset sends RESET on a best-effort basis and marks both directions reset."
\<close>

definition Reset :: "error option \<Rightarrow> stream \<Rightarrow> error option \<times> stream" where
  "Reset outcome s =
     (case writeMsgOnWriter outcome \<lparr>Flag = Some Message_RESET, Message = []\<rparr> s of
        (e, s1) \<Rightarrow>
          (None, s1\<lparr>sendState := sendStateReset, receiveState := receiveStateReset\<rparr>))"

text \<open>
  \<^verbatim>\<open>Read\<close> releases the mutex around \<^verbatim>\<open>ReadMsg\<close>, so other goroutines can run
  whole operations on the stream in between. There is one reader at a time (the
  reader token), so these are the operations other than \<^verbatim>\<open>Read\<close>; a flag
  processed on behalf of the stream by another goroutine is among them.
\<close>

datatype other_op =
    Op_CloseRead "error option"
  | Op_Write "error option" bytes
  | Op_CloseWrite "error option"
  | Op_Reset "error option"
  | Op_IncomingFlag "Message_Flag option"

fun run_other :: "other_op \<Rightarrow> stream \<Rightarrow> stream" where
  "run_other (Op_CloseRead w) s = snd (CloseRead w s)"
| "run_other (Op_Write w b) s = snd (Write w b s)"
| "run_other (Op_CloseWrite w) s = snd (CloseWrite w s)"
| "run_other (Op_Reset w) s = snd (Reset w s)"
| "run_other (Op_IncomingFlag f) s = processIncomingFlag f s"

fun run_others :: "other_op list \<Rightarrow> stream \<Rightarrow> stream" where
  "run_others [] s = s"
| "run_others (x # xs) s = run_others xs (run_other x s)"

text \<open>
  One call of \<^verbatim>\<open>ReadMsg\<close>: what the other goroutines did while the mutex was
  released, and what the call returned. \<^verbatim>\<open>Read\<close> is given the calls that will
  return; when it needs one more than it is given, the call never returns and
  \<^verbatim>\<open>Read\<close> stays \<open>Blocked\<close>. Otherwise it returns the count, the bytes copied into
  \<^verbatim>\<open>b\<close> and the error.
\<close>

datatype ReadMsg_result = Msg pb_Message | ReadMsg_error error

type_synonym ReadMsg_call = "other_op list \<times> ReadMsg_result"

datatype Read_result = Returned nat bytes "error option" | Blocked

text \<open>
  The second half of the loop body, with a buffered message \<open>m\<close>: copy data if
  there is any, otherwise process the flag and drop the message. \<open>None\<close> means the
  loop goes round again.
\<close>

definition drain_nextMessage ::
    "nat \<Rightarrow> nat \<Rightarrow> pb_Message \<Rightarrow> stream \<Rightarrow> Read_result option \<times> stream" where
  "drain_nextMessage len_b read m s =
     (if length (Message m) > 0
      then (let n = min len_b (length (Message m))
            in (Some (Returned (read + n) (take n (Message m)) None),
                s\<lparr>nextMessage := Some (m\<lparr>Message := drop n (Message m)\<rparr>)\<rparr>))
      else (let s1 = (processIncomingFlag (Flag m) s)\<lparr>nextMessage := None\<rparr>
            in if closeErr s1 \<noteq> None then (Some (Returned read [] (closeErr s1)), s1)
               else case receiveState s1 of
                      receiveStateDataRead \<Rightarrow> (Some (Returned read [] (Some io_EOF)), s1)
                    | receiveStateReset \<Rightarrow>
                        (Some (Returned read [] (Some network_ErrReset)), s1)
                    | receiveStateReceiving \<Rightarrow> (None, s1)))"

text \<open>
  The loop from an iteration that finds no buffered message: it loads the next
  one, and on an error of \<^verbatim>\<open>ReadMsg\<close> takes the mutex again and decides.
\<close>

fun Read_load :: "nat \<Rightarrow> nat \<Rightarrow> ReadMsg_call list \<Rightarrow> stream \<Rightarrow> Read_result \<times> stream" where
  "Read_load len_b read [] s = (Blocked, s)"
| "Read_load len_b read ((others, res) # calls) s =
     (let s1 = run_others others s
      in case res of
           ReadMsg_error err \<Rightarrow>
             if err = io_EOF
             then (if receiveState s1 = receiveStateDataRead
                   then (Returned 0 [] (Some io_EOF), s1)
                   else (Returned 0 [] (Some network_ErrReset),
                         s1\<lparr>receiveState := receiveStateReset\<rparr>))
             else if receiveState s1 = receiveStateReset
             then (Returned 0 [] (Some network_ErrReset), s1)
             else if receiveState s1 = receiveStateDataRead
             then (Returned 0 [] (Some io_EOF), s1)
             else (Returned 0 [] (Some err), s1)
         | Msg msg \<Rightarrow>
             (case drain_nextMessage len_b read msg (s1\<lparr>nextMessage := Some msg\<rparr>) of
                (Some r, s2) \<Rightarrow> (r, s2)
              | (None, s2) \<Rightarrow> Read_load len_b read calls s2))"

definition Read_loop :: "nat \<Rightarrow> nat \<Rightarrow> ReadMsg_call list \<Rightarrow> stream \<Rightarrow> Read_result \<times> stream" where
  "Read_loop len_b read calls s =
     (case nextMessage s of
        None \<Rightarrow> Read_load len_b read calls s
      | Some m \<Rightarrow>
          (case drain_nextMessage len_b read m s of
             (Some r, s1) \<Rightarrow> (r, s1)
           | (None, s1) \<Rightarrow> Read_load len_b read calls s1))"

text \<open>\<^verbatim>\<open>Read\<close> on a buffer of length \<open>len_b\<close>.\<close>

definition Read :: "nat \<Rightarrow> ReadMsg_call list \<Rightarrow> stream \<Rightarrow> Read_result \<times> stream" where
  "Read len_b calls s =
     (if closeErr s \<noteq> None then (Returned 0 [] (closeErr s), s)
      else case receiveState s of
             receiveStateDataRead \<Rightarrow> (Returned 0 [] (Some io_EOF), s)
           | receiveStateReset \<Rightarrow> (Returned 0 [] (Some network_ErrReset), s)
           | receiveStateReceiving \<Rightarrow>
               if len_b = 0 then (Returned 0 [] None, s)
               else Read_loop len_b 0 calls s)"

text \<open>A sequence of operations on one stream.\<close>

datatype op = Op_Read nat "ReadMsg_call list" | Op_Other other_op

fun run_op :: "op \<Rightarrow> stream \<Rightarrow> stream" where
  "run_op (Op_Read len_b calls) s = snd (Read len_b calls s)"
| "run_op (Op_Other x) s = run_other x s"

fun run_ops :: "op list \<Rightarrow> stream \<Rightarrow> stream" where
  "run_ops [] s = s"
| "run_ops (x # xs) s = run_ops xs (run_op x s)"

text \<open>No state of \<open>s\<close> that has left its initial value is back at it in \<open>s'\<close>.\<close>

definition no_return :: "stream \<Rightarrow> stream \<Rightarrow> bool" where
  "no_return s s' \<longleftrightarrow>
     (receiveState s \<noteq> receiveStateReceiving \<longrightarrow> receiveState s' \<noteq> receiveStateReceiving) \<and>
     (sendState s \<noteq> sendStateSending \<longrightarrow> sendState s' \<noteq> sendStateSending)"

section \<open>The claims' own readings, and example values\<close>

text \<open>
  The reading of the ICE timeout rule in which a zero field switches its check off
  and stays zero: the value is accepted when each comparison either holds or has a
  zero operand, and the transport then keeps the value as given.
\<close>

definition zero_disables_accepts :: "IceTimeouts \<Rightarrow> bool" where
  "zero_disables_accepts ts \<longleftrightarrow>
     (Failed ts = 0 \<or> Disconnect ts = 0 \<or> Failed ts \<ge> Disconnect ts) \<and>
     (Disconnect ts = 0 \<or> Keepalive ts = 0 \<or> Disconnect ts > Keepalive ts)"

definition zero_disables_option :: "IceTimeouts \<Rightarrow> Option" where
  "zero_disables_option ts t =
     (if zero_disables_accepts ts then Inr (t\<lparr>peerConnectionTimeouts := ts\<rparr>)
      else Inl (Errorf ''rejected'' None))"

text \<open>The zero fields after the overwrite from the transport.\<close>

definition fill_zero :: "IceTimeouts \<Rightarrow> IceTimeouts \<Rightarrow> IceTimeouts" where
  "fill_zero cur ts =
     \<lparr>Disconnect = (if Disconnect ts = 0 then Disconnect cur else Disconnect ts),
      Failed = (if Failed ts = 0 then Failed cur else Failed ts),
      Keepalive = (if Keepalive ts = 0 then Keepalive cur else Keepalive ts)\<rparr>"

text \<open>
  The multihash codes of the hash algorithms a DTLS fingerprint can name, and the
  certhash encoding that would pick its code from the fingerprint's algorithm.
\<close>

definition multihash_code_of_algorithm :: "string \<Rightarrow> nat option" where
  "multihash_code_of_algorithm a =
     (if a = ''sha-1'' then Some 0x11
      else if a = ''sha-256'' then Some 0x12
      else if a = ''sha-512'' then Some 0x13
      else if a = ''sha-384'' then Some 0x20
      else if a = ''sha-224'' then Some 0x1013
      else if a = ''md5'' then Some 0xd5
      else None)"

definition encode_with_matching_code :: "DTLSFingerprint \<Rightarrow> error + string" where
  "encode_with_matching_code fp =
     (case DecodeInterspersedHexFromASCIIString (Value fp) of
        Inl err \<Rightarrow> Inl err
      | Inr digest \<Rightarrow>
         (case multihash_code_of_algorithm (Algorithm fp) of
            None \<Rightarrow> Inl (errors_New ''unknown fingerprint algorithm'')
          | Some code \<Rightarrow>
             (case mh_Encode digest code of
                Inl err \<Rightarrow> Inl err
              | Inr encoded \<Rightarrow> multibase_Encode Base64url encoded)))"

text \<open>
  The multihash of a digest, and the prologue as the spec writes it: the prefix,
  then the SHA-256 multihashes of the two certificates' DER bytes, remote first
  for the inbound role and local first for the outbound one.
\<close>

definition multihash :: "nat \<Rightarrow> bytes \<Rightarrow> bytes" where
  "multihash code digest = PutUvarint code @ PutUvarint (length digest) @ digest"

definition claimed_prologue :: "(bytes \<Rightarrow> bytes) \<Rightarrow> bytes \<Rightarrow> bytes \<Rightarrow> bool \<Rightarrow> bytes" where
  "claimed_prologue sha256 local_der remote_der inbound =
     (let local_mh = multihash SHA2_256 (sha256 local_der);
          remote_mh = multihash SHA2_256 (sha256 remote_der)
      in bytes_of_string ''libp2p-webrtc-noise:'' @
         (if inbound then remote_mh @ local_mh else local_mh @ remote_mh))"

text \<open>
  Example values. The digest sizes are those of \<^verbatim>\<open>crypto.Hash.Size\<close>. The
  stand-in registry has every algorithm available and gives each a digest of its
  real size (the input cut or zero-filled to that size): the examples depend on
  the sizes of the digests only.
\<close>

definition Size :: "crypto_Hash \<Rightarrow> nat" where
  "Size h = (case h of MD5 \<Rightarrow> 16 | SHA1 \<Rightarrow> 20 | SHA224 \<Rightarrow> 28 | SHA256 \<Rightarrow> 32
                     | SHA384 \<Rightarrow> 48 | SHA512 \<Rightarrow> 64)"

definition sized_digest :: "crypto_Hash \<Rightarrow> bytes \<Rightarrow> bytes" where
  "sized_digest h der = take (Size h) (der @ replicate (Size h) 0)"

definition sized_digests :: hash_registry where
  "sized_digests h = Some (sized_digest h)"

definition GetSupportedSDPHash_table :: "nat \<Rightarrow> crypto_Hash option" where
  "GetSupportedSDPHash_table code =
     (if code = 0xd5 then Some MD5
      else if code = 0x11 then Some SHA1
      else if code = 0x12 then Some SHA256
      else if code = 0x13 then Some SHA512
      else None)"

definition fresh_transport :: WebRTCTransport where
  "fresh_transport =
     \<lparr>webrtcConfig = \<lparr>Certificates = [\<lparr>x509Cert_Raw = [0x30, 0x03, 0x02, 0x01, 0x01]\<rparr>]\<rparr>,
      privKey = [1, 2, 3],
      localPeerId = ''QmLocal'',
      peerConnectionTimeouts =
        \<lparr>Disconnect = DefaultDisconnectedTimeout,
         Failed = DefaultFailedTimeout,
         Keepalive = DefaultKeepaliveTimeout\<rparr>,
      maxInFlightConnections = 128\<rparr>"

definition ok_new_env :: new_env where
  "ok_new_env =
     \<lparr>env_IDFromPrivateKey = Inr ''QmLocal'',
      env_GenerateKey = None,
      env_GenerateCertificate = Inr \<lparr>x509Cert_Raw = [0x30, 0x03, 0x02, 0x01, 0x01]\<rparr>,
      env_noise_New = None,
      env_DefaultMaxInFlightConnections = 128\<rparr>"

definition example_pc :: PeerConnection where
  "example_pc = \<lparr>RemoteCertificate = [0x30, 0x03, 0x02, 0x01, 0x02]\<rparr>"

definition ok_env :: environment where
  "ok_env =
     \<lparr>env_hashes = sized_digests,
      env_ParseCertificate = (\<lambda>raw. Inr \<lparr>Raw = raw\<rparr>),
      env_WithSessionOptions = None,
      env_SecureInbound = (\<lambda>prologue. Inr [7, 7, 7]),
      env_SecureOutbound = (\<lambda>prologue. Inr [7, 7, 7]),
      env_OpenConnection = None,
      env_SetPeer = None,
      env_GetSupportedSDPHash = GetSupportedSDPHash_table,
      env_DialArgs = None,
      env_ResolveUDPAddr = None,
      env_NewPeerConnection = Inr example_pc,
      env_CreateDataChannel = None,
      env_CreateOffer = None,
      env_SetLocalDescription = None,
      env_RenderServerSdp = None,
      env_SetRemoteDescription = None,
      env_AwaitPeerConnectionOpen = ErrC None,
      env_GetDetachedChannel = None,
      env_GetSelectedCandidatePair = (True, None),
      env_FromNetAddr = None,
      env_newConnection = None\<rparr>"

definition noise_fails_env :: environment where
  "noise_fails_env =
     ok_env\<lparr>env_SecureInbound := (\<lambda>prologue. Inl (errors_New ''handshake failed''))\<rparr>"

text \<open>
  \<^verbatim>\<open>/ip4/127.0.0.1/udp/9999/webrtc/certhash/...\<close> with the certhash of the digest
  \<^verbatim>\<open>aa:bb\<close> under the code of SHA2-256, and the same under the code \<^verbatim>\<open>0xFF\<close>.
\<close>

definition example_maddr :: Multiaddr where
  "example_maddr =
     [(0x0004, ''127.0.0.1''), (0x0111, ''9999''), (0x0118, []), (P_CERTHASH, ''uEgKquw'')]"

definition unknown_code_maddr :: Multiaddr where
  "unknown_code_maddr =
     [(0x0004, ''127.0.0.1''), (0x0111, ''9999''), (0x0118, []), (P_CERTHASH, ''u_wECqrs'')]"

definition new_stream :: stream where
  "new_stream =
     \<lparr>receiveState = receiveStateReceiving, sendState = sendStateSending, nextMessage = None,
      closeErr = None, written = [], controlMessageReaderSpawned = False\<rparr>"

section \<open>Facts about the codecs\<close>

lemma hexdigit_val: "\<forall>n<16. fromHexChar (hexdigit n) = Some n"
  unfolding hexdigit_def fromHexChar_def
  by (simp add: numeral_eq_Suc All_less_Suc del: One_nat_def)

lemma hex_byte_digits: "hex_byte (hexdigit (unat b div 16)) (hexdigit (unat b mod 16)) = Inr b"
proof -
  have "unat b < 256" using unsigned_less [of b] by simp
  then have "unat b div 16 < 16" by simp
  then have "fromHexChar (hexdigit (unat b div 16)) = Some (unat b div 16)"
    using hexdigit_val by blast
  moreover have "fromHexChar (hexdigit (unat b mod 16)) = Some (unat b mod 16)"
    using hexdigit_val by simp
  ultimately show ?thesis by (simp add: hex_byte_def)
qed

lemma interspersed_hex_nonempty: "bs \<noteq> [] \<Longrightarrow> interspersed_hex bs \<noteq> []"
  by (cases bs rule: interspersed_hex.cases) simp_all

lemma decode_interspersed_hex: "DecodeInterspersedHexFromASCIIString (interspersed_hex bs) = Inr bs"
proof (induction bs rule: interspersed_hex.induct)
  case 1
  show ?case by simp
next
  case (2 b)
  show ?case by (simp add: hex_byte_digits)
next
  case (3 b v va)
  have "interspersed_hex (v # va) \<noteq> []" by (rule interspersed_hex_nonempty) simp
  with 3 show ?case by (simp add: hex_byte_digits)
qed

lemma FromUvarint_PutUvarint:
  "i \<le> 8 \<Longrightarrow> n < 2 ^ (7 * (9 - i)) \<Longrightarrow> (i > 0 \<Longrightarrow> n > 0) \<Longrightarrow>
   FromUvarint_loop i x (PutUvarint n @ rest) = Inr (x + n * 2 ^ (7 * i), rest)"
proof (induction n arbitrary: i x rule: PutUvarint.induct)
  case (1 n)
  show ?case
  proof (cases "n < 128")
    case True
    then have u: "unat (of_nat n :: byte) = n" by (simp add: unat_of_nat)
    have z: "(of_nat n :: byte) = 0 \<longleftrightarrow> n = 0"
      using u unat_eq_0 [of "of_nat n :: byte"] by simp
    from True 1(2,4) show ?thesis
      by (subst PutUvarint.simps) (auto simp: u z)
  next
    case False
    have u: "unat (of_nat (n mod 128 + 128) :: byte) = n mod 128 + 128"
      by (simp only: unat_of_nat) simp
    have i7: "i \<le> 7"
    proof (rule ccontr)
      assume "\<not> i \<le> 7"
      with 1(2) have "i = 8" by simp
      with 1(3) have "n < 128" by simp
      with False show False by simp
    qed
    have "(2::nat) ^ (7 * (9 - i)) = 128 * 2 ^ (7 * (9 - (i + 1)))"
    proof -
      have "7 * (9 - i) = 7 + 7 * (9 - (i + 1))" using i7 by simp
      then show ?thesis by (simp add: power_add)
    qed
    with 1(3) have b: "n div 128 < 2 ^ (7 * (9 - (i + 1)))"
      by (simp add: less_mult_imp_div_less mult.commute)
    have p: "n div 128 > 0" using False by simp
    have ih: "FromUvarint_loop (i + 1) (x + (n mod 128) * 2 ^ (7 * i)) (PutUvarint (n div 128) @ rest)
       = Inr (x + (n mod 128) * 2 ^ (7 * i) + (n div 128) * 2 ^ (7 * (i + 1)), rest)"
      using 1(1) [OF False, of "i + 1"] i7 b p by simp
    have e: "(n mod 128) * 2 ^ (7 * i) + (n div 128) * 2 ^ (7 * (i + 1)) = n * 2 ^ (7 * i)"
    proof -
      define P where "P = (2::nat) ^ (7 * i)"
      have pw: "(2::nat) ^ (7 * (i + 1)) = 128 * P"
        by (simp add: power_add P_def)
      have "n mod 128 * P + n div 128 * (128 * P) = (n mod 128 + 128 * (n div 128)) * P"
        by (simp only: add_mult_distrib add_mult_distrib2 mult.assoc mult.commute mult.left_commute)
      also have "n mod 128 + 128 * (n div 128) = n"
        by simp
      finally show ?thesis
        unfolding pw P_def .
    qed
    define c where "c = (of_nat (n mod 128 + 128) :: byte)"
    have uc: "unat c = n mod 128 + 128"
      using u by (simp only: c_def)
    have cz: "c \<noteq> 0"
      using uc unat_eq_0 [of c] by simp
    have put: "PutUvarint n = c # PutUvarint (n div 128)"
      using False by (subst PutUvarint.simps) (simp only: c_def if_False)
    have "FromUvarint_loop i x (c # PutUvarint (n div 128) @ rest)
        = FromUvarint_loop (i + 1) (x + (n mod 128) * 2 ^ (7 * i)) (PutUvarint (n div 128) @ rest)"
      using i7 by (simp add: uc cz)
    also have "\<dots> = Inr (x + n * 2 ^ (7 * i), rest)"
      using ih e by (simp only: add.assoc)
    finally show ?thesis
      by (simp only: put append_Cons)
  qed
qed

lemma uvarint_PutUvarint:
  "n < 2 ^ 63 \<Longrightarrow> uvarint (PutUvarint n @ rest) = Inr (n, rest)"
  using FromUvarint_PutUvarint [of 0 n 0 rest] by (simp add: uvarint_def)

lemma PutUvarint_small: "n < 128 \<Longrightarrow> PutUvarint n = [of_nat n]"
  by (subst PutUvarint.simps) simp

lemma PutUvarint_length: "length (PutUvarint n) \<ge> 1"
  by (subst PutUvarint.simps) simp

lemma encodeURL_all:
  "\<forall>i<64. decodeMap (encodeURL i) = Some i \<and> encodeURL i \<noteq> CHR 0x0A \<and> encodeURL i \<noteq> CHR 0x0D"
  unfolding encodeURL_def decodeMap_def
  by (simp add: numeral_eq_Suc All_less_Suc del: One_nat_def)

lemma decodeMap_encodeURL [simp]: "decodeMap (encodeURL (n mod 64)) = Some (n mod 64)"
  using encodeURL_all by simp

lemma encodeURL_not_newline [simp]:
  "encodeURL (n mod 64) \<noteq> CHR 0x0A" "encodeURL (n mod 64) \<noteq> CHR 0x0D"
  using encodeURL_all by simp_all

lemma byte_of_nat_eqI: "m mod 256 = unat b \<Longrightarrow> (of_nat m :: byte) = b"
proof -
  assume "m mod 256 = unat b"
  then have "unat (of_nat m :: byte) = unat b" by (simp add: unat_of_nat)
  then show ?thesis by (rule word_unat_eq_iff [THEN iffD2])
qed

lemma lin4: "v = q1 * 64 + d0 \<Longrightarrow> q1 = q2 * 64 + d1 \<Longrightarrow> q2 = q3 * 64 + d2 \<Longrightarrow>
   q3 * 262144 + d2 * 4096 + d1 * 64 + d0 = (v::nat)"
  by simp

lemma sextets4: 
  assumes "v < 16777216"
  shows "(v div 262144 mod 64) * 262144 + (v div 4096 mod 64) * 4096 + (v div 64 mod 64) * 64 + v mod 64 = (v::nat)"
proof -
  have a: "v div 4096 = v div 64 div 64" by (simp add: div_mult2_eq)
  have b: "v div 262144 = v div 64 div 64 div 64" by (simp add: div_mult2_eq)
  have "v div 262144 < 64" using assms by (simp add: less_mult_imp_div_less)
  then have c: "v div 262144 mod 64 = v div 64 div 64 div 64" using b by simp
  have 1: "v = v div 64 * 64 + v mod 64" by simp
  have 2: "v div 64 = v div 64 div 64 * 64 + v div 64 mod 64" by simp
  have 3: "v div 64 div 64 = v div 64 div 64 div 64 * 64 + v div 64 div 64 mod 64" by simp
  show ?thesis unfolding c a by (rule lin4 [OF 1 2 3])
qed

lemma dm256:
  "c < 256 \<Longrightarrow> (q * 256 + c) div 256 = (q::nat)"
  "c < 256 \<Longrightarrow> (q * 256 + c) mod 256 = c"
  by simp_all

lemma dm65536: "c < 65536 \<Longrightarrow> (q * 65536 + c) div 65536 = (q::nat)"
  by simp

lemma bytes3:
  assumes "a < 256" "b < 256" "c < 256"
  shows "(a * 65536 + b * 256 + c) div 65536 = (a::nat)"
    and "(a * 65536 + b * 256 + c) div 256 mod 256 = b"
    and "(a * 65536 + b * 256 + c) mod 256 = c"
    and "a * 65536 + b * 256 + c < 16777216"
proof -
  have e: "a * 65536 + b * 256 + c = a * 65536 + (b * 256 + c)" by simp
  have "b * 256 + c < 65536" using assms by simp
  then show "(a * 65536 + b * 256 + c) div 65536 = a"
    unfolding e by (rule dm65536)
  have f: "a * 65536 + b * 256 + c = (a * 256 + b) * 256 + c" by simp
  have "(a * 65536 + b * 256 + c) div 256 = a * 256 + b"
    unfolding f using assms(3) by (rule dm256)
  then show "(a * 65536 + b * 256 + c) div 256 mod 256 = b"
    using dm256(2) [OF assms(2), of a] by simp
  show "(a * 65536 + b * 256 + c) mod 256 = c"
    unfolding f using assms(3) by (rule dm256)
  show "a * 65536 + b * 256 + c < 16777216" using assms by simp
qed

lemma sextets3:
  assumes "v < 16777216" "v mod 64 = 0"
  shows "(v div 262144 mod 64) * 262144 + (v div 4096 mod 64) * 4096 + (v div 64 mod 64) * 64 = (v::nat)"
  using sextets4 [OF assms(1)] unfolding assms(2) by (simp only: add_0_right)

lemma sextets2:
  assumes "v < 16777216" "v mod 64 = 0" "v div 64 mod 64 = 0"
  shows "(v div 262144 mod 64) * 262144 + (v div 4096 mod 64) * 4096 = (v::nat)"
  using sextets4 [OF assms(1)] unfolding assms(2,3) by (simp only: add_0_right mult_zero_left)

lemma two_bytes_val:
  assumes "a < 256" "b < 256"
  shows "(a * 65536 + b * 256) mod 64 = (0::nat)"
proof -
  have "a * 65536 + b * 256 = (a * 1024 + b * 4) * 64" by simp
  then show ?thesis by (simp only: mod_mult_self2_is_0)
qed

lemma one_byte_val:
  shows "(a * 65536) mod 64 = (0::nat)" and "(a * 65536) div 64 mod 64 = (0::nat)"
proof -
  have e: "a * 65536 = (a * 1024) * 64" by simp
  show "(a * 65536) mod 64 = 0" by (simp only: e mod_mult_self2_is_0)
  have "(a * 65536) div 64 = (a * 16) * 64" by simp
  then show "(a * 65536) div 64 mod 64 = 0" by (simp only: mod_mult_self2_is_0)
qed

lemma unat_byte_less: "unat (b::byte) < 256"
  using unsigned_less [of b] by simp

lemma decodeQuantum_EncodeToString:
  "decodeQuantum (base64_EncodeToString src) = Inr src"
proof (induction src rule: base64_EncodeToString.induct)
  case 1
  show ?case by simp
next
  case (2 a)
  define v where "v = unat a * 65536"
  have v: "v < 16777216" using unat_byte_less [of a] by (simp add: v_def)
  have s: "(v div 262144 mod 64) * 262144 + (v div 4096 mod 64) * 4096 = v"
    using sextets2 [OF v] one_byte_val [of "unat a"] by (simp only: v_def)
  have "v div 65536 = unat a" by (simp add: v_def)
  then have "(of_nat (v div 65536) :: byte) = a" by (intro byte_of_nat_eqI) (simp add: unat_byte_less)
  then show ?case
    by (simp add: Let_def v_def [symmetric] s)
next
  case (3 a b)
  define v where "v = unat a * 65536 + unat b * 256"
  have v: "v < 16777216" using unat_byte_less [of a] unat_byte_less [of b] by (simp add: v_def)
  have s: "(v div 262144 mod 64) * 262144 + (v div 4096 mod 64) * 4096 + (v div 64 mod 64) * 64 = v"
    using sextets3 [OF v] two_bytes_val [OF unat_byte_less unat_byte_less, of a b] by (simp only: v_def)
  have z: "(0::nat) < 256" by simp
  have "v div 65536 = unat a" "v div 256 mod 256 = unat b"
    using bytes3(1,2) [OF unat_byte_less unat_byte_less z, of a b] by (simp_all add: v_def)
  then have "(of_nat (v div 65536) :: byte) = a" "(of_nat (v div 256) :: byte) = b"
    by (auto intro!: byte_of_nat_eqI simp: unat_byte_less)
  then show ?case
    by (simp add: Let_def v_def [symmetric] s)
next
  case (4 a b c src)
  define v where "v = unat a * 65536 + unat b * 256 + unat c"
  have v: "v < 16777216"
    using bytes3(4) [OF unat_byte_less unat_byte_less unat_byte_less, of a b c] by (simp add: v_def)
  have s: "(v div 262144 mod 64) * 262144 + (v div 4096 mod 64) * 4096 + (v div 64 mod 64) * 64 + v mod 64 = v"
    by (rule sextets4 [OF v])
  have "v div 65536 = unat a" "v div 256 mod 256 = unat b" "v mod 256 = unat c"
    using bytes3(1,2,3) [OF unat_byte_less unat_byte_less unat_byte_less, of a b c] by (simp_all add: v_def)
  then have "(of_nat (v div 65536) :: byte) = a" "(of_nat (v div 256) :: byte) = b" "(of_nat v :: byte) = c"
    by (auto intro!: byte_of_nat_eqI simp: unat_byte_less)
  with 4 show ?case
    by (simp add: Let_def v_def [symmetric] s)
qed

lemma EncodeToString_no_newline:
  "filter (\<lambda>c. c \<noteq> CHR 0x0A \<and> c \<noteq> CHR 0x0D) (base64_EncodeToString src) = base64_EncodeToString src"
  by (induction src rule: base64_EncodeToString.induct) (simp_all add: Let_def)

lemma base64_roundtrip: "base64_DecodeString (base64_EncodeToString src) = Inr src"
  by (simp add: base64_DecodeString_def EncodeToString_no_newline decodeQuantum_EncodeToString)

lemma mh_Decode_Encode:
  assumes "length buf < 2 ^ 31" "code < 2 ^ 63"
  shows "mh_Decode (PutUvarint code @ PutUvarint (length buf) @ buf)
           = Inr \<lparr>Code = code, Length = length buf, Digest = buf\<rparr>"
proof -
  let ?all = "PutUvarint code @ PutUvarint (length buf) @ buf"
  have l: "length buf < 2 ^ 63"
    using assms(1) by (rule less_trans) simp
  have u1: "uvarint ?all = Inr (code, PutUvarint (length buf) @ buf)"
    using assms(2) by (rule uvarint_PutUvarint)
  have u2: "uvarint (PutUvarint (length buf) @ buf) = Inr (length buf, buf)"
    using l by (rule uvarint_PutUvarint)
  have two: "\<not> length ?all < 2"
    using PutUvarint_length [of code] PutUvarint_length [of "length buf"] by simp
  have "readMultihashFromBuf ?all = Inr (length ?all, code, buf)"
    unfolding readMultihashFromBuf_def using two assms(1) by (simp add: u1 u2)
  then show ?thesis
    by (simp add: mh_Decode_def)
qed

lemma decode_example_maddr:
  "DecodeRemoteFingerprint example_maddr = Inr \<lparr>Code = 0x12, Length = 2, Digest = [0xaa, 0xbb]\<rparr>"
  by (simp add: example_maddr_def DecodeRemoteFingerprint_def P_CERTHASH_def
        multibase_Decode_def base64_DecodeString_def decodeMap_def mh_Decode_def
        readMultihashFromBuf_def uvarint_def Let_def)

lemma decode_unknown_code_maddr:
  "DecodeRemoteFingerprint unknown_code_maddr = Inr \<lparr>Code = 0xFF, Length = 2, Digest = [0xaa, 0xbb]\<rparr>"
  by (simp add: unknown_code_maddr_def DecodeRemoteFingerprint_def P_CERTHASH_def
        multibase_Decode_def base64_DecodeString_def decodeMap_def mh_Decode_def
        readMultihashFromBuf_def uvarint_def Let_def)

section \<open>The Noise prologue\<close>

lemma getCertificateFingerprint_ok:
  "Certificates (webrtcConfig t) = c # cs \<Longrightarrow> reg SHA256 = Some sha256 \<Longrightarrow>
   getCertificateFingerprint reg t
     = Inr \<lparr>Algorithm = ''sha-256'', Value = interspersed_hex (sha256 (x509Cert_Raw c))\<rparr>"
  by (simp add: getCertificateFingerprint_def GetFingerprints_def)

lemma generateNoisePrologue_ok:
  assumes "env_ParseCertificate env (RemoteCertificate pc) = Inr cert"
    and "Certificates (webrtcConfig t) = c # cs"
    and "env_hashes env SHA256 = Some sha256"
    and "env_hashes env hash = Some h"
  shows "generateNoisePrologue env t pc hash inbound
           = Inr (bytes_of_string ''libp2p-webrtc-noise:'' @
                  (if inbound
                   then multihash SHA2_256 (h (Raw cert)) @ multihash SHA2_256 (sha256 (x509Cert_Raw c))
                   else multihash SHA2_256 (sha256 (x509Cert_Raw c)) @ multihash SHA2_256 (h (Raw cert))))"
  using assms
  by (simp add: generateNoisePrologue_def getCertificateFingerprint_ok Fingerprint_def
        decode_interspersed_hex mh_Encode_def multihash_def Let_def)

lemma multihash_length:
  "length d < 128 \<Longrightarrow> length (multihash SHA2_256 d) = 2 + length d"
  by (simp add: multihash_def SHA2_256_def PutUvarint_small)

lemma prologue_not_claimed_for_sha512:
  assumes "env_ParseCertificate env (RemoteCertificate pc) = Inr cert"
    and "Certificates (webrtcConfig t) = c # cs"
    and "env_hashes env SHA256 = Some sha256"
    and "env_hashes env SHA512 = Some sha512"
    and "\<And>der. length (sha256 der) = 32"
    and "\<And>der. length (sha512 der) = 64"
  shows "generateNoisePrologue env t pc SHA512 inbound
           \<noteq> Inr (claimed_prologue sha256 (x509Cert_Raw c) (Raw cert) inbound)"
proof
  assume eq: "generateNoisePrologue env t pc SHA512 inbound
           = Inr (claimed_prologue sha256 (x509Cert_Raw c) (Raw cert) inbound)"
  have l1: "length (multihash SHA2_256 (sha256 der)) = 34" for der
    using multihash_length [of "sha256 der"] assms(5) [of der] by simp
  have l2: "length (multihash SHA2_256 (sha512 der)) = 66" for der
    using multihash_length [of "sha512 der"] assms(6) [of der] by simp
  from eq generateNoisePrologue_ok [OF assms(1,2,3,4), of inbound]
  have "length (bytes_of_string ''libp2p-webrtc-noise:'' @
                  (if inbound
                   then multihash SHA2_256 (sha512 (Raw cert)) @ multihash SHA2_256 (sha256 (x509Cert_Raw c))
                   else multihash SHA2_256 (sha256 (x509Cert_Raw c)) @ multihash SHA2_256 (sha512 (Raw cert))))
      = length (claimed_prologue sha256 (x509Cert_Raw c) (Raw cert) inbound)"
    by simp
  then show False
    by (simp add: claimed_prologue_def Let_def l1 l2 split: if_splits)
qed

lemma ok_env_fields:
  "env_hashes ok_env = sized_digests"
  "env_ParseCertificate ok_env = (\<lambda>raw. Inr \<lparr>Raw = raw\<rparr>)"
  "env_WithSessionOptions ok_env = None"
  "env_SecureInbound ok_env = (\<lambda>prologue. Inr [7, 7, 7])"
  "env_SecureOutbound ok_env = (\<lambda>prologue. Inr [7, 7, 7])"
  "env_OpenConnection ok_env = None"
  "env_SetPeer ok_env = None"
  "env_GetSupportedSDPHash ok_env = GetSupportedSDPHash_table"
  "env_DialArgs ok_env = None"
  "env_ResolveUDPAddr ok_env = None"
  "env_NewPeerConnection ok_env = Inr example_pc"
  "env_CreateDataChannel ok_env = None"
  "env_CreateOffer ok_env = None"
  "env_SetLocalDescription ok_env = None"
  "env_RenderServerSdp ok_env = None"
  "env_SetRemoteDescription ok_env = None"
  "env_AwaitPeerConnectionOpen ok_env = ErrC None"
  "env_GetDetachedChannel ok_env = None"
  "env_GetSelectedCandidatePair ok_env = (True, None)"
  "env_FromNetAddr ok_env = None"
  "env_newConnection ok_env = None"
  by (simp_all add: ok_env_def)

lemma noise_fails_env_fields:
  "env_hashes noise_fails_env = sized_digests"
  "env_ParseCertificate noise_fails_env = (\<lambda>raw. Inr \<lparr>Raw = raw\<rparr>)"
  "env_WithSessionOptions noise_fails_env = None"
  "env_SecureInbound noise_fails_env = (\<lambda>prologue. Inl (errors_New ''handshake failed''))"
  "env_SecureOutbound noise_fails_env = (\<lambda>prologue. Inr [7, 7, 7])"
  "env_OpenConnection noise_fails_env = None"
  "env_SetPeer noise_fails_env = None"
  "env_GetSupportedSDPHash noise_fails_env = GetSupportedSDPHash_table"
  "env_DialArgs noise_fails_env = None"
  "env_ResolveUDPAddr noise_fails_env = None"
  "env_NewPeerConnection noise_fails_env = Inr example_pc"
  "env_CreateDataChannel noise_fails_env = None"
  "env_CreateOffer noise_fails_env = None"
  "env_SetLocalDescription noise_fails_env = None"
  "env_RenderServerSdp noise_fails_env = None"
  "env_SetRemoteDescription noise_fails_env = None"
  "env_AwaitPeerConnectionOpen noise_fails_env = ErrC None"
  "env_GetDetachedChannel noise_fails_env = None"
  "env_GetSelectedCandidatePair noise_fails_env = (True, None)"
  "env_FromNetAddr noise_fails_env = None"
  "env_newConnection noise_fails_env = None"
  by (simp_all add: noise_fails_env_def ok_env_def)

text \<open>
  C1, as the code has it. When the remote certificate parses, the transport has a
  certificate and the two hash algorithms are available, the prologue is the bytes
  of \<^verbatim>\<open>libp2p-webrtc-noise:\<close> followed by two multihashes, both under the code of
  SHA2-256: the one of the local certificate wraps the SHA-256 digest of its DER
  bytes, the one of the remote certificate wraps the digest of its DER bytes under
  the algorithm \<open>hash\<close> handed to the handshake. The remote one comes first for the
  inbound role, the local one first for the outbound role. When \<open>hash\<close> is SHA-256
  this is the prologue of the spec.
\<close>

theorem generateNoisePrologue_value:
  assumes "env_ParseCertificate env (RemoteCertificate pc) = Inr cert"
    and "Certificates (webrtcConfig t) = c # cs"
    and "env_hashes env SHA256 = Some sha256"
    and "env_hashes env hash = Some h"
  shows "generateNoisePrologue env t pc hash inbound
           = Inr (bytes_of_string ''libp2p-webrtc-noise:'' @
                  (if inbound
                   then multihash SHA2_256 (h (Raw cert)) @ multihash SHA2_256 (sha256 (x509Cert_Raw c))
                   else multihash SHA2_256 (sha256 (x509Cert_Raw c)) @ multihash SHA2_256 (h (Raw cert))))
         \<and> (hash = SHA256 \<longrightarrow>
              generateNoisePrologue env t pc hash inbound
                = Inr (claimed_prologue sha256 (x509Cert_Raw c) (Raw cert) inbound))"
  using assms
  by (auto simp: generateNoisePrologue_def getCertificateFingerprint_ok Fingerprint_def
        decode_interspersed_hex mh_Encode_def multihash_def claimed_prologue_def Let_def)

theorem generateNoisePrologue_value_witness:
  "generateNoisePrologue ok_env fresh_transport example_pc SHA256 True
     = Inr (claimed_prologue (sized_digest SHA256)
              [0x30, 0x03, 0x02, 0x01, 0x01] [0x30, 0x03, 0x02, 0x01, 0x02] True)
   \<and> generateNoisePrologue ok_env fresh_transport example_pc SHA256 False
     = Inr (claimed_prologue (sized_digest SHA256)
              [0x30, 0x03, 0x02, 0x01, 0x01] [0x30, 0x03, 0x02, 0x01, 0x02] False)"
proof -
  let ?pc = "example_pc"
  let ?c = "\<lparr>x509Cert_Raw = [0x30, 0x03, 0x02, 0x01, 0x01 :: byte]\<rparr>"
  have 1: "env_ParseCertificate ok_env (RemoteCertificate ?pc) = Inr \<lparr>Raw = [0x30, 0x03, 0x02, 0x01, 0x02]\<rparr>"
    by (simp add: ok_env_fields example_pc_def)
  have 2: "Certificates (webrtcConfig fresh_transport) = ?c # []"
    by (simp add: fresh_transport_def)
  have 3: "env_hashes ok_env SHA256 = Some (sized_digest SHA256)"
    by (simp add: ok_env_fields sized_digests_def)
  show ?thesis
    using generateNoisePrologue_value [OF 1 2 3 3, of True, THEN conjunct2]
          generateNoisePrologue_value [OF 1 2 3 3, of False, THEN conjunct2]
    by simp
qed

text \<open>
  C1 as claimed fails when the handshake is given another algorithm than SHA-256
  (a dial to a certhash whose code the table maps to SHA-512): the remote part
  then wraps a 64-byte digest under the code of SHA2-256, and is not the SHA-256
  multihash of the certificate.
\<close>

theorem generateNoisePrologue_sha512_counterexample:
  "generateNoisePrologue ok_env fresh_transport example_pc SHA512 False
     \<noteq> Inr (claimed_prologue (sized_digest SHA256)
              [0x30, 0x03, 0x02, 0x01, 0x01] [0x30, 0x03, 0x02, 0x01, 0x02] False)"
proof -
  let ?pc = "example_pc"
  let ?c = "\<lparr>x509Cert_Raw = [0x30, 0x03, 0x02, 0x01, 0x01 :: byte]\<rparr>"
  have 1: "env_ParseCertificate ok_env (RemoteCertificate ?pc) = Inr \<lparr>Raw = [0x30, 0x03, 0x02, 0x01, 0x02]\<rparr>"
    by (simp add: ok_env_fields example_pc_def)
  have 2: "Certificates (webrtcConfig fresh_transport) = ?c # []"
    by (simp add: fresh_transport_def)
  have 3: "env_hashes ok_env SHA256 = Some (sized_digest SHA256)"
    by (simp add: ok_env_fields sized_digests_def)
  have 4: "env_hashes ok_env SHA512 = Some (sized_digest SHA512)"
    by (simp add: ok_env_fields sized_digests_def)
  have a: "generateNoisePrologue ok_env fresh_transport ?pc SHA512 False
      = Inr (bytes_of_string ''libp2p-webrtc-noise:''
               @ multihash SHA2_256 (sized_digest SHA256 [0x30, 0x03, 0x02, 0x01, 0x01])
               @ multihash SHA2_256 (sized_digest SHA512 [0x30, 0x03, 0x02, 0x01, 0x02]))"
    using generateNoisePrologue_ok [OF 1 2 3 4, of False] by simp
  have "length (multihash SHA2_256 (sized_digest SHA512 [0x30, 0x03, 0x02, 0x01, 0x02])) = 66"
       "length (multihash SHA2_256 (sized_digest SHA256 [0x30, 0x03, 0x02, 0x01, 0x02])) = 34"
    by (simp_all add: multihash_def SHA2_256_def PutUvarint_small sized_digest_def Size_def)
  then have b: "multihash SHA2_256 (sized_digest SHA512 [0x30, 0x03, 0x02, 0x01, 0x02])
        \<noteq> multihash SHA2_256 (sized_digest SHA256 [0x30, 0x03, 0x02, 0x01, 0x02])"
    by auto
  show ?thesis
    unfolding a claimed_prologue_def Let_def using b by simp
qed

section \<open>Noise roles\<close>

lemma noiseHandshake_events:
  "snd (noiseHandshake env t pc p h inbound)
     = (if \<not> isl (generateNoisePrologue env t pc h inbound) \<and> env_WithSessionOptions env = None
        then [if inbound then SecureOutbound else SecureInbound]
        else [])"
  by (auto simp: noiseHandshake_def split: sum.splits option.splits)

lemma noiseHandshake_success_events:
  "fst (noiseHandshake env t pc p h inbound) = Inr k \<Longrightarrow>
   snd (noiseHandshake env t pc p h inbound) = [if inbound then SecureOutbound else SecureInbound]"
  by (cases inbound) (auto simp: noiseHandshake_def split: sum.splits option.splits)

lemma dial_after_pc_success:
  "dial_after_pc env t pc p h = (tc, None, evs) \<Longrightarrow>
   evs = [SecureInbound] \<and> (\<exists>k. tc = Some \<lparr>remotePublicKey = Some k, closed = False\<rparr>)"
  by (auto simp: dial_after_pc_def Let_def noiseHandshake_def
      split: option.splits await.splits prod.splits sum.splits bool.splits)

lemma dial_after_pc_failure:
  "dial_after_pc env t pc p h = (tc, Some e, evs) \<Longrightarrow>
   (tc = None \<and> evs = []) \<or>
   (tc = Some \<lparr>remotePublicKey = None, closed = False\<rparr> \<and> (evs = [] \<or> evs = [SecureInbound]))"
  by (auto simp: dial_after_pc_def Let_def noiseHandshake_def
      split: option.splits await.splits prod.splits sum.splits bool.splits)

lemma dial_after_pc_no_outbound:
  "dial_after_pc env t pc p h = (tc, e, evs) \<Longrightarrow> set evs \<subseteq> {SecureInbound}"
  using dial_after_pc_success [of env t pc p h tc evs] dial_after_pc_failure [of env t pc p h tc _ evs]
  by (cases e) auto

lemma dial_body_cases:
  "dial_body env t maddr p = (pc, tc, e, evs) \<Longrightarrow>
   (pc = None \<and> tc = None \<and> e \<noteq> None \<and> evs = []) \<or>
   (\<exists>pc' h evs'. pc = Some pc' \<and> evs = PeerConnectionCreated # evs'
        \<and> dial_after_pc env t pc' p h = (tc, e, evs'))"
  by (auto simp: dial_body_def split: sum.splits option.splits prod.splits)

lemma dial_events_no_outbound: "SecureOutbound \<notin> set (trace (dial env t maddr p))"
proof -
  obtain pc tc e evs where b: "dial_body env t maddr p = (pc, tc, e, evs)"
    by (cases "dial_body env t maddr p") auto
  from dial_body_cases [OF b] have "SecureOutbound \<notin> set evs"
    using dial_after_pc_no_outbound by fastforce
  then show ?thesis
    by (auto simp: dial_def b connection_Close_def Let_def split: option.splits if_splits)
qed

lemma dial_success:
  assumes "ret_err (dial env t maddr p) = None"
  shows "trace (dial env t maddr p) = [PeerConnectionCreated, SecureInbound]
         \<and> (\<exists>k. ret_conn (dial env t maddr p) = Some \<lparr>remotePublicKey = Some k, closed = False\<rparr>)"
proof -
  obtain pc tc e evs where b: "dial_body env t maddr p = (pc, tc, e, evs)"
    by (cases "dial_body env t maddr p") auto
  from assms have e: "e = None"
    by (auto simp: dial_def b connection_Close_def Let_def split: option.splits if_splits prod.splits)
  with dial_body_cases [OF b] obtain pc' h evs' where
    "evs = PeerConnectionCreated # evs'" "dial_after_pc env t pc' p h = (tc, None, evs')"
    by auto
  with dial_after_pc_success [of env t pc' p h tc evs'] show ?thesis
    by (auto simp: dial_def b e)
qed

lemma example_prologue:
  assumes "env_hashes env = sized_digests"
    and "env_ParseCertificate env = (\<lambda>raw. Inr \<lparr>Raw = raw\<rparr>)"
  shows "\<not> isl (generateNoisePrologue env fresh_transport example_pc SHA256 inbound)"
proof -
  have 1: "env_ParseCertificate env (RemoteCertificate example_pc) = Inr \<lparr>Raw = RemoteCertificate example_pc\<rparr>"
    by (simp add: assms)
  have 2: "Certificates (webrtcConfig fresh_transport)
      = \<lparr>x509Cert_Raw = [0x30, 0x03, 0x02, 0x01, 0x01]\<rparr> # []"
    by (simp add: fresh_transport_def)
  have 3: "env_hashes env SHA256 = Some (sized_digest SHA256)"
    by (simp add: assms sized_digests_def)
  show ?thesis
    by (simp add: generateNoisePrologue_ok [OF 1 2 3 3])
qed

lemma noiseHandshake_example:
  assumes "env_hashes env = sized_digests"
    and "env_ParseCertificate env = (\<lambda>raw. Inr \<lparr>Raw = raw\<rparr>)"
    and "env_WithSessionOptions env = None"
    and "env_SecureInbound env = (\<lambda>prologue. r_in)"
    and "env_SecureOutbound env = (\<lambda>prologue. r_out)"
  shows "noiseHandshake env fresh_transport example_pc p SHA256 inbound
     = (if inbound
        then (case r_out of
                Inl err \<Rightarrow> (Inl (Errorf ''failed to secure inbound [noise outbound]'' (Some err)), [SecureOutbound])
              | Inr k \<Rightarrow> (Inr k, [SecureOutbound]))
        else (case r_in of
                Inl err \<Rightarrow> (Inl (Errorf ''failed to secure outbound [noise inbound]'' (Some err)), [SecureInbound])
              | Inr k \<Rightarrow> (Inr k, [SecureInbound])))"
  using example_prologue [OF assms(1,2), of inbound] assms(3,4,5)
  by (cases "generateNoisePrologue env fresh_transport example_pc SHA256 inbound")
     (simp_all add: noiseHandshake_def)

lemma dial_ok_env:
  "dial ok_env fresh_transport example_maddr ''QmRemote''
     = \<lparr>ret_conn = Some \<lparr>remotePublicKey = Some [7, 7, 7], closed = False\<rparr>,
        ret_err = None,
        trace = [PeerConnectionCreated, SecureInbound]\<rparr>"
proof -
  have n: "noiseHandshake ok_env fresh_transport example_pc ''QmRemote'' SHA256 False
      = (Inr [7, 7, 7], [SecureInbound])"
    by (subst noiseHandshake_example [where r_in = "Inr [7, 7, 7]" and r_out = "Inr [7, 7, 7]"])
       (simp_all add: ok_env_fields)
  have a: "dial_after_pc ok_env fresh_transport example_pc ''QmRemote'' SHA256
      = (Some \<lparr>remotePublicKey = Some [7, 7, 7], closed = False\<rparr>, None, [SecureInbound])"
    unfolding dial_after_pc_def n by (simp add: ok_env_fields)
  have b: "dial_body ok_env fresh_transport example_maddr ''QmRemote''
      = (Some example_pc, Some \<lparr>remotePublicKey = Some [7, 7, 7], closed = False\<rparr>, None,
         [PeerConnectionCreated, SecureInbound])"
    unfolding dial_body_def decode_example_maddr
    by (simp add: ok_env_fields GetSupportedSDPHash_table_def a)
  show ?thesis
    by (simp add: dial_def b)
qed

text \<open>
  C2. A dial never enters Noise through \<open>SecureOutbound\<close>, and a dial that
  succeeds went through \<open>SecureInbound\<close> exactly once: \<^verbatim>\<open>dial\<close> passes
  \<^verbatim>\<open>inbound = false\<close>. The handshake itself calls exactly one entry point once
  the prologue and the session transport exist, \<open>SecureOutbound\<close> when its
  \<open>inbound\<close> flag is set (the accepting side) and \<open>SecureInbound\<close> when it is not
  (the dialing side), and calls none before that.
\<close>

theorem noise_roles_inverted:
  "SecureOutbound \<notin> set (trace (dial env t maddr p))
   \<and> (ret_err (dial env t maddr p) = None \<longrightarrow> count_list (trace (dial env t maddr p)) SecureInbound = 1)
   \<and> snd (noiseHandshake env t pc p' h inbound)
       = (if \<not> isl (generateNoisePrologue env t pc h inbound) \<and> env_WithSessionOptions env = None
          then [if inbound then SecureOutbound else SecureInbound]
          else [])
   \<and> (\<forall>k. fst (noiseHandshake env t pc p' h inbound) = Inr k \<longrightarrow>
          snd (noiseHandshake env t pc p' h inbound) = [if inbound then SecureOutbound else SecureInbound])"
  using dial_events_no_outbound [of env t maddr p] dial_success [of env t maddr p]
        noiseHandshake_events [of env t pc p' h inbound]
        noiseHandshake_success_events [of env t pc p' h inbound]
  by auto

theorem noise_roles_inverted_witness:
  "ret_err (dial ok_env fresh_transport example_maddr ''QmRemote'') = None
   \<and> trace (dial ok_env fresh_transport example_maddr ''QmRemote'') = [PeerConnectionCreated, SecureInbound]
   \<and> fst (noiseHandshake ok_env fresh_transport example_pc ''QmRemote'' SHA256 True) = Inr [7, 7, 7]
   \<and> snd (noiseHandshake ok_env fresh_transport example_pc ''QmRemote'' SHA256 True) = [SecureOutbound]"
proof -
  have n: "noiseHandshake ok_env fresh_transport example_pc ''QmRemote'' SHA256 True
      = (Inr [7, 7, 7], [SecureOutbound])"
    by (subst noiseHandshake_example [where r_in = "Inr [7, 7, 7]" and r_out = "Inr [7, 7, 7]"])
       (simp_all add: ok_env_fields)
  from noise_roles_inverted [of ok_env fresh_transport example_maddr "''QmRemote''"
         example_pc "''QmRemote''" SHA256 True]
  show ?thesis
    by (simp add: dial_ok_env n)
qed

section \<open>Releasing the scope\<close>

lemma connection_Close_once:
  "snd (connection_Close (fst (connection_Close c))) = []"
  "closed (fst (connection_Close c))"
  "\<not> closed c \<Longrightarrow> snd (connection_Close c) = [ScopeDone]"
  by (simp_all add: connection_Close_def)

lemma dial_failure_ScopeDone:
  assumes "ret_err (dial env t maddr p) = Some e"
  shows "count_list (trace (dial env t maddr p)) ScopeDone
           = (if ret_conn (dial env t maddr p) = None then 0 else 1)"
proof -
  obtain pc tc e' evs where b: "dial_body env t maddr p = (pc, tc, e', evs)"
    by (cases "dial_body env t maddr p") auto
  from assms obtain e'' where e: "e' = Some e''"
    by (cases e') (auto simp: dial_def b)
  from dial_body_cases [OF b] show ?thesis
  proof
    assume "pc = None \<and> tc = None \<and> e' \<noteq> None \<and> evs = []"
    then show ?thesis by (simp add: dial_def b e)
  next
    assume "\<exists>pc' h evs'. pc = Some pc' \<and> evs = PeerConnectionCreated # evs'
        \<and> dial_after_pc env t pc' p h = (tc, e', evs')"
    then obtain pc' h evs' where
      p: "pc = Some pc'" "evs = PeerConnectionCreated # evs'"
         "dial_after_pc env t pc' p h = (tc, Some e'', evs')"
      using e by auto
    from dial_after_pc_failure [OF p(3)] show ?thesis
      by (auto simp: dial_def b e p connection_Close_def Let_def)
  qed
qed

lemma Dial_ScopeDone_count:
  "count_list (trace (Dial env t maddr p)) ScopeDone
     = (if env_OpenConnection env \<noteq> None then 0
        else if env_SetPeer env \<noteq> None then 1
        else if ret_err (dial env t maddr p) = None then 0
        else if ret_conn (dial env t maddr p) = None then 1
        else 2)"
proof (cases "ret_err (dial env t maddr p)")
  case None
  with dial_success [OF None] show ?thesis
    by (auto simp: Dial_def Let_def split: option.splits)
next
  case (Some e)
  with dial_failure_ScopeDone [OF Some] show ?thesis
    by (auto simp: Dial_def Let_def split: option.splits)
qed

lemma dial_noise_fails_env:
  "dial noise_fails_env fresh_transport example_maddr ''QmRemote''
     = \<lparr>ret_conn = Some \<lparr>remotePublicKey = None, closed = True\<rparr>,
        ret_err = Some (Errorf ''failed to secure outbound [noise inbound]''
                      (Some (errors_New ''handshake failed''))),
        trace = [PeerConnectionCreated, SecureInbound, PeerConnectionClose, ConnectionClose, ScopeDone]\<rparr>"
proof -
  have n: "noiseHandshake noise_fails_env fresh_transport example_pc ''QmRemote'' SHA256 False
      = (Inl (Errorf ''failed to secure outbound [noise inbound]'' (Some (errors_New ''handshake failed''))),
         [SecureInbound])"
    by (subst noiseHandshake_example [where r_in = "Inl (errors_New ''handshake failed'')"
            and r_out = "Inr [7, 7, 7]"])
       (simp_all add: noise_fails_env_fields)
  have a: "dial_after_pc noise_fails_env fresh_transport example_pc ''QmRemote'' SHA256
      = (Some \<lparr>remotePublicKey = None, closed = False\<rparr>,
         Some (Errorf ''failed to secure outbound [noise inbound]'' (Some (errors_New ''handshake failed''))),
         [SecureInbound])"
    unfolding dial_after_pc_def n by (simp add: noise_fails_env_fields)
  have b: "dial_body noise_fails_env fresh_transport example_maddr ''QmRemote''
      = (Some example_pc, Some \<lparr>remotePublicKey = None, closed = False\<rparr>,
         Some (Errorf ''failed to secure outbound [noise inbound]'' (Some (errors_New ''handshake failed''))),
         [PeerConnectionCreated, SecureInbound])"
    unfolding dial_body_def decode_example_maddr
    by (simp add: noise_fails_env_fields GetSupportedSDPHash_table_def a)
  show ?thesis
    by (simp add: dial_def b connection_Close_def)
qed

text \<open>
  C3 at the input where it fails. Every step of the dial succeeds up to the
  construction of the connection, then the Noise handshake fails. \<^verbatim>\<open>dial\<close>
  returns the connection together with the error, so its deferred function closes
  the connection, which releases the scope; \<^verbatim>\<open>Dial\<close> then calls \<^verbatim>\<open>scope.Done()\<close>
  again. The scope is released twice.
\<close>

theorem Dial_noise_failure_releases_scope_twice:
  "Dial noise_fails_env fresh_transport example_maddr ''QmRemote''
     = \<lparr>ret_conn = None,
        ret_err = Some (Errorf ''failed to secure outbound [noise inbound]''
                      (Some (errors_New ''handshake failed''))),
        trace = [PeerConnectionCreated, SecureInbound, PeerConnectionClose, ConnectionClose,
                  ScopeDone, ScopeDone]\<rparr>
   \<and> count_list (trace (Dial noise_fails_env fresh_transport example_maddr ''QmRemote'')) ScopeDone = 2"
proof -
  have "env_OpenConnection noise_fails_env = None" "env_SetPeer noise_fails_env = None"
    by (simp_all add: noise_fails_env_fields)
  then have "Dial noise_fails_env fresh_transport example_maddr ''QmRemote''
     = \<lparr>ret_conn = None,
        ret_err = Some (Errorf ''failed to secure outbound [noise inbound]''
                      (Some (errors_New ''handshake failed''))),
        trace = [PeerConnectionCreated, SecureInbound, PeerConnectionClose, ConnectionClose,
                  ScopeDone, ScopeDone]\<rparr>"
    by (simp add: Dial_def dial_noise_fails_env)
  then show ?thesis by simp
qed

section \<open>ICE timeouts option\<close>

lemma fill_zero_steps:
  "(let timeouts1 = (if Disconnect ts = 0 then ts\<lparr>Disconnect := Disconnect cur\<rparr> else ts);
        timeouts2 = (if Failed timeouts1 = 0 then timeouts1\<lparr>Failed := Failed cur\<rparr> else timeouts1);
        timeouts3 = (if Keepalive timeouts2 = 0 then timeouts2\<lparr>Keepalive := Keepalive cur\<rparr> else timeouts2)
    in f timeouts3) = f (fill_zero cur ts)"
  by (cases ts) (simp add: fill_zero_def Let_def)

text \<open>
  A call on any transport, one that holds a zero included: the zero fields of the
  captured value are filled from the transport, and a field that is still zero
  after that switches its comparison off.
\<close>

lemma WithPeerConnectionIceTimeouts_call:
  "WithPeerConnectionIceTimeouts ts t =
     (let f = fill_zero (peerConnectionTimeouts t) ts
      in (f,
          if Disconnect f \<noteq> 0 \<and> Failed f \<noteq> 0 \<and> Failed f < Disconnect f
          then Inl (Errorf ''disconnect timeout cannot be greater than failed timeout'' None)
          else if Disconnect f \<noteq> 0 \<and> Keepalive f \<noteq> 0 \<and> Disconnect f \<le> Keepalive f
          then Inl (Errorf ''keepalive timeout cannot be greater than or equal to failed timeout'' None)
          else Inr (t\<lparr>peerConnectionTimeouts := f\<rparr>)))"
  unfolding WithPeerConnectionIceTimeouts_def
  by (subst fill_zero_steps) (simp add: Let_def)

lemma fill_zero_nonzero:
  assumes "Disconnect cur \<noteq> 0" "Failed cur \<noteq> 0" "Keepalive cur \<noteq> 0"
  shows "Disconnect (fill_zero cur ts) \<noteq> 0"
    and "Failed (fill_zero cur ts) \<noteq> 0"
    and "Keepalive (fill_zero cur ts) \<noteq> 0"
  using assms by (simp_all add: fill_zero_def)

lemma fill_zero_unchanged:
  assumes "Disconnect ts \<noteq> 0" "Failed ts \<noteq> 0" "Keepalive ts \<noteq> 0"
  shows "fill_zero cur ts = ts"
  using assms by (cases ts) (simp add: fill_zero_def)

text \<open>A transport built by \<open>New\<close> without options holds the three defaults.\<close>

lemma New_default_timeouts:
  "New env k psk [] = Inr t \<Longrightarrow>
   peerConnectionTimeouts t
     = \<lparr>Disconnect = 5 * Second, Failed = 25 * Second, Keepalive = 2 * Second\<rparr>"
  by (auto simp: New_def DefaultDisconnectedTimeout_def DefaultFailedTimeout_def
        DefaultKeepaliveTimeout_def split: if_splits sum.splits option.splits)

text \<open>
  The same option value applied again after another one: the first call has left
  the defaults in the captured variable, so the second call does not fill from the
  transport and stores 5 s, 25 s, 2 s over the 10 s, 30 s, 1 s the transport holds.
\<close>

lemma reapplied_option_keeps_its_values:
  "WithPeerConnectionIceTimeouts \<lparr>Disconnect = 0, Failed = 0, Keepalive = 0\<rparr> fresh_transport
     = (\<lparr>Disconnect = 5 * Second, Failed = 25 * Second, Keepalive = 2 * Second\<rparr>,
        Inr fresh_transport)"
  "WithPeerConnectionIceTimeouts
       \<lparr>Disconnect = 10 * Second, Failed = 30 * Second, Keepalive = 1 * Second\<rparr> fresh_transport
     = (\<lparr>Disconnect = 10 * Second, Failed = 30 * Second, Keepalive = 1 * Second\<rparr>,
        Inr (fresh_transport\<lparr>peerConnectionTimeouts :=
               \<lparr>Disconnect = 10 * Second, Failed = 30 * Second, Keepalive = 1 * Second\<rparr>\<rparr>))"
  "WithPeerConnectionIceTimeouts
       \<lparr>Disconnect = 5 * Second, Failed = 25 * Second, Keepalive = 2 * Second\<rparr>
       (fresh_transport\<lparr>peerConnectionTimeouts :=
          \<lparr>Disconnect = 10 * Second, Failed = 30 * Second, Keepalive = 1 * Second\<rparr>\<rparr>)
     = (\<lparr>Disconnect = 5 * Second, Failed = 25 * Second, Keepalive = 2 * Second\<rparr>,
        Inr fresh_transport)"
  by (simp_all add: WithPeerConnectionIceTimeouts_def fresh_transport_def Second_def Let_def
        DefaultDisconnectedTimeout_def DefaultFailedTimeout_def DefaultKeepaliveTimeout_def)

text \<open>
  C4, as the code has it, for an option value \<^verbatim>\<open>WithPeerConnectionIceTimeouts(ts)\<close>
  applied for the first time, to a transport whose three timeouts are non-zero
  (the defaults 5 s, 25 s, 2 s are). Every zero field of \<open>ts\<close> is replaced by the
  value the transport holds for it, so no field is zero after the replacement:
  both comparisons run, and no zero is stored. The call fails exactly when, on the
  replaced values, the failed timeout is smaller than the disconnect timeout, or
  the disconnect timeout is not larger than the keepalive timeout; otherwise the
  transport stores the replaced values. The closure keeps the replaced values in
  its captured variable, so every later call of the same option value, on any
  transport, compares and stores these same values and takes nothing from that
  transport.
\<close>

theorem WithPeerConnectionIceTimeouts_fills_then_checks:
  assumes "Disconnect (peerConnectionTimeouts t) \<noteq> 0"
    and "Failed (peerConnectionTimeouts t) \<noteq> 0"
    and "Keepalive (peerConnectionTimeouts t) \<noteq> 0"
  shows "WithPeerConnectionIceTimeouts ts t =
           (let f = fill_zero (peerConnectionTimeouts t) ts
            in (f,
                if Failed f < Disconnect f
                then Inl (Errorf ''disconnect timeout cannot be greater than failed timeout'' None)
                else if Disconnect f \<le> Keepalive f
                then Inl (Errorf ''keepalive timeout cannot be greater than or equal to failed timeout'' None)
                else Inr (t\<lparr>peerConnectionTimeouts := f\<rparr>)))
         \<and> Disconnect (fill_zero (peerConnectionTimeouts t) ts) \<noteq> 0
         \<and> Failed (fill_zero (peerConnectionTimeouts t) ts) \<noteq> 0
         \<and> Keepalive (fill_zero (peerConnectionTimeouts t) ts) \<noteq> 0
         \<and> (\<forall>t'. WithPeerConnectionIceTimeouts (fst (WithPeerConnectionIceTimeouts ts t)) t' =
                (let f = fill_zero (peerConnectionTimeouts t) ts
                 in (f,
                     if Failed f < Disconnect f
                     then Inl (Errorf ''disconnect timeout cannot be greater than failed timeout'' None)
                     else if Disconnect f \<le> Keepalive f
                     then Inl (Errorf ''keepalive timeout cannot be greater than or equal to failed timeout'' None)
                     else Inr (t'\<lparr>peerConnectionTimeouts := f\<rparr>))))"
proof -
  let ?f = "fill_zero (peerConnectionTimeouts t) ts"
  note nz = fill_zero_nonzero [OF assms, of ts]
  have first: "WithPeerConnectionIceTimeouts ts t =
      (?f,
       if Failed ?f < Disconnect ?f
       then Inl (Errorf ''disconnect timeout cannot be greater than failed timeout'' None)
       else if Disconnect ?f \<le> Keepalive ?f
       then Inl (Errorf ''keepalive timeout cannot be greater than or equal to failed timeout'' None)
       else Inr (t\<lparr>peerConnectionTimeouts := ?f\<rparr>))"
    using nz by (simp add: WithPeerConnectionIceTimeouts_call Let_def)
  have again: "WithPeerConnectionIceTimeouts ?f t' =
      (?f,
       if Failed ?f < Disconnect ?f
       then Inl (Errorf ''disconnect timeout cannot be greater than failed timeout'' None)
       else if Disconnect ?f \<le> Keepalive ?f
       then Inl (Errorf ''keepalive timeout cannot be greater than or equal to failed timeout'' None)
       else Inr (t'\<lparr>peerConnectionTimeouts := ?f\<rparr>))" for t'
    using nz fill_zero_unchanged [OF nz, of "peerConnectionTimeouts t'"]
    by (simp add: WithPeerConnectionIceTimeouts_call [of ?f t'] Let_def)
  have "fst (WithPeerConnectionIceTimeouts ts t) = ?f"
    by (simp add: first)
  with first again nz show ?thesis
    by (simp add: Let_def)
qed

theorem WithPeerConnectionIceTimeouts_fills_then_checks_witness:
  "Disconnect (peerConnectionTimeouts fresh_transport) \<noteq> 0
   \<and> Failed (peerConnectionTimeouts fresh_transport) \<noteq> 0
   \<and> Keepalive (peerConnectionTimeouts fresh_transport) \<noteq> 0
   \<and> WithPeerConnectionIceTimeouts \<lparr>Disconnect = 0, Failed = 0, Keepalive = 3 * Second\<rparr> fresh_transport
     = (\<lparr>Disconnect = 5 * Second, Failed = 25 * Second, Keepalive = 3 * Second\<rparr>,
        Inr (fresh_transport\<lparr>peerConnectionTimeouts :=
               \<lparr>Disconnect = 5 * Second, Failed = 25 * Second, Keepalive = 3 * Second\<rparr>\<rparr>))
   \<and> WithPeerConnectionIceTimeouts \<lparr>Disconnect = 0, Failed = 0, Keepalive = 7 * Second\<rparr> fresh_transport
     = (\<lparr>Disconnect = 5 * Second, Failed = 25 * Second, Keepalive = 7 * Second\<rparr>,
        Inl (Errorf ''keepalive timeout cannot be greater than or equal to failed timeout'' None))"
proof -
  have nz: "Disconnect (peerConnectionTimeouts fresh_transport) \<noteq> 0"
    "Failed (peerConnectionTimeouts fresh_transport) \<noteq> 0"
    "Keepalive (peerConnectionTimeouts fresh_transport) \<noteq> 0"
    by (simp_all add: fresh_transport_def Second_def
          DefaultDisconnectedTimeout_def DefaultFailedTimeout_def DefaultKeepaliveTimeout_def)
  from WithPeerConnectionIceTimeouts_fills_then_checks
         [OF nz, of "\<lparr>Disconnect = 0, Failed = 0, Keepalive = 3 * Second\<rparr>", THEN conjunct1]
       WithPeerConnectionIceTimeouts_fills_then_checks
         [OF nz, of "\<lparr>Disconnect = 0, Failed = 0, Keepalive = 7 * Second\<rparr>", THEN conjunct1]
       nz
  show ?thesis
    by (simp add: fill_zero_def fresh_transport_def Second_def Let_def
          DefaultDisconnectedTimeout_def DefaultFailedTimeout_def DefaultKeepaliveTimeout_def)
qed

text \<open>
  C4 as claimed fails, at a first call on a transport with the defaults. With
  disconnect = 30 s and the two other fields zero, both checks are switched off
  under the zero-disables reading, so the value would be accepted and stored as
  given. The code replaces the zero failed timeout by the transport's 25 s, finds
  25 s < 30 s and rejects. With all three fields zero the code accepts, but stores
  the transport's values instead of the zeros.
\<close>

theorem WithPeerConnectionIceTimeouts_zero_counterexample:
  "zero_disables_accepts \<lparr>Disconnect = 30 * Second, Failed = 0, Keepalive = 0\<rparr>
   \<and> snd (WithPeerConnectionIceTimeouts
            \<lparr>Disconnect = 30 * Second, Failed = 0, Keepalive = 0\<rparr> fresh_transport)
       = Inl (Errorf ''disconnect timeout cannot be greater than failed timeout'' None)
   \<and> snd (WithPeerConnectionIceTimeouts
            \<lparr>Disconnect = 30 * Second, Failed = 0, Keepalive = 0\<rparr> fresh_transport)
       \<noteq> zero_disables_option \<lparr>Disconnect = 30 * Second, Failed = 0, Keepalive = 0\<rparr> fresh_transport
   \<and> snd (WithPeerConnectionIceTimeouts \<lparr>Disconnect = 0, Failed = 0, Keepalive = 0\<rparr> fresh_transport)
       = Inr fresh_transport
   \<and> peerConnectionTimeouts fresh_transport \<noteq> \<lparr>Disconnect = 0, Failed = 0, Keepalive = 0\<rparr>"
  by (simp add: WithPeerConnectionIceTimeouts_def zero_disables_accepts_def
        zero_disables_option_def fresh_transport_def Second_def Let_def
        DefaultDisconnectedTimeout_def DefaultFailedTimeout_def DefaultKeepaliveTimeout_def)

section \<open>Certhash encoding and decoding\<close>

text \<open>
  C5, as the code has it. For a fingerprint whose value is the colon-interspersed
  hex form of a digest, whatever its algorithm field says, the result is the
  multibase prefix \<^verbatim>\<open>u\<close> followed by the unpadded URL-safe base64 of the
  multihash of the digest under the code \<^verbatim>\<open>0x12\<close> of SHA2-256: the code is fixed
  and is not chosen from the fingerprint's algorithm. It is the matching code when
  the algorithm is \<^verbatim>\<open>sha-256\<close>.
\<close>

theorem EncodeDTLSFingerprint_always_sha2_256:
  "EncodeDTLSFingerprint \<lparr>Algorithm = alg, Value = interspersed_hex digest\<rparr>
     = Inr (CHR ''u'' # base64_EncodeToString ([0x12] @ PutUvarint (length digest) @ digest))
   \<and> (alg = ''sha-256'' \<longrightarrow>
        EncodeDTLSFingerprint \<lparr>Algorithm = alg, Value = interspersed_hex digest\<rparr>
          = encode_with_matching_code \<lparr>Algorithm = alg, Value = interspersed_hex digest\<rparr>)"
  by (simp add: EncodeDTLSFingerprint_def encode_with_matching_code_def
        multihash_code_of_algorithm_def decode_interspersed_hex mh_Encode_def
        multibase_Encode_def SHA2_256_def PutUvarint_small)

theorem EncodeDTLSFingerprint_always_sha2_256_witness:
  "EncodeDTLSFingerprint \<lparr>Algorithm = ''sha-256'', Value = ''aa:bb''\<rparr> = Inr ''uEgKquw''
   \<and> encode_with_matching_code \<lparr>Algorithm = ''sha-256'', Value = ''aa:bb''\<rparr> = Inr ''uEgKquw''
   \<and> EncodeDTLSFingerprint \<lparr>Algorithm = ''sha-1'', Value = ''aa:bb''\<rparr> = Inr ''uEgKquw''"
proof -
  have a: "interspersed_hex [0xaa, 0xbb] = ''aa:bb''"
    by (simp add: hexdigit_def)
  have b: "CHR ''u'' # base64_EncodeToString ([0x12] @ PutUvarint (length [0xaa, 0xbb :: byte]) @ [0xaa, 0xbb])
      = ''uEgKquw''"
    by (simp add: PutUvarint_small encodeURL_def Let_def)
  from EncodeDTLSFingerprint_always_sha2_256 [of "''sha-256''" "[0xaa, 0xbb]"]
       EncodeDTLSFingerprint_always_sha2_256 [of "''sha-1''" "[0xaa, 0xbb]"]
  show ?thesis
    unfolding a b by auto
qed

text \<open>
  C5 as claimed fails on a fingerprint of another algorithm. For \<^verbatim>\<open>sha-512\<close>
  the matching code is \<^verbatim>\<open>0x13\<close>; the code writes \<^verbatim>\<open>0x12\<close>, and the certhash
  decodes to a multihash of code \<^verbatim>\<open>0x12\<close>.
\<close>

theorem EncodeDTLSFingerprint_code_counterexample:
  "EncodeDTLSFingerprint \<lparr>Algorithm = ''sha-512'', Value = ''aa:bb''\<rparr> = Inr ''uEgKquw''
   \<and> DecodeRemoteFingerprint [(P_CERTHASH, ''uEgKquw'')]
       = Inr \<lparr>Code = 0x12, Length = 2, Digest = [0xaa, 0xbb]\<rparr>
   \<and> multihash_code_of_algorithm ''sha-512'' = Some 0x13
   \<and> encode_with_matching_code \<lparr>Algorithm = ''sha-512'', Value = ''aa:bb''\<rparr> = Inr ''uEwKquw''
   \<and> EncodeDTLSFingerprint \<lparr>Algorithm = ''sha-512'', Value = ''aa:bb''\<rparr>
       \<noteq> encode_with_matching_code \<lparr>Algorithm = ''sha-512'', Value = ''aa:bb''\<rparr>"
  by (simp add: EncodeDTLSFingerprint_def encode_with_matching_code_def hex_byte_def fromHexChar_def
        mh_Encode_def multibase_Encode_def SHA2_256_def PutUvarint_small encodeURL_def Let_def
        multihash_code_of_algorithm_def DecodeRemoteFingerprint_def P_CERTHASH_def
        multibase_Decode_def base64_DecodeString_def decodeMap_def mh_Decode_def
        readMultihashFromBuf_def uvarint_def)

text \<open>
  C6. For a fingerprint whose value is the colon-interspersed hex form of a
  digest (of fewer than 2147483648 bytes, the limit of the multihash
  decoder), the encoding succeeds, and every multiaddress whose certhash component
  carries the encoded string decodes to the multihash with that digest, its length
  and the code of SHA2-256.
\<close>

theorem fingerprint_roundtrip:
  assumes "length digest < 2 ^ 31"
  shows "\<exists>s. EncodeDTLSFingerprint \<lparr>Algorithm = alg, Value = interspersed_hex digest\<rparr> = Inr s
     \<and> (\<forall>maddr. ValueForProtocol maddr P_CERTHASH = Inr s \<longrightarrow>
          DecodeRemoteFingerprint maddr
            = Inr \<lparr>Code = SHA2_256, Length = length digest, Digest = digest\<rparr>)"
proof -
  let ?mh = "PutUvarint SHA2_256 @ PutUvarint (length digest) @ digest"
  have enc: "EncodeDTLSFingerprint \<lparr>Algorithm = alg, Value = interspersed_hex digest\<rparr>
      = Inr (CHR ''u'' # base64_EncodeToString ?mh)"
    by (simp add: EncodeDTLSFingerprint_def decode_interspersed_hex mh_Encode_def multibase_Encode_def)
  have c: "SHA2_256 < 2 ^ 63" by (simp add: SHA2_256_def)
  have mb: "multibase_Decode (CHR ''u'' # base64_EncodeToString ?mh) = Inr (Base64url, ?mh)"
    by (simp add: multibase_Decode_def base64_roundtrip)
  have dec: "DecodeRemoteFingerprint maddr
      = Inr \<lparr>Code = SHA2_256, Length = length digest, Digest = digest\<rparr>"
    if "ValueForProtocol maddr P_CERTHASH = Inr (CHR ''u'' # base64_EncodeToString ?mh)" for maddr
    using that mh_Decode_Encode [OF assms c]
    by (simp add: DecodeRemoteFingerprint_def mb)
  from enc dec show ?thesis by blast
qed

theorem fingerprint_roundtrip_witness:
  "length [0xaa, 0xbb :: byte] < 2 ^ 31
   \<and> EncodeDTLSFingerprint \<lparr>Algorithm = ''sha-256'', Value = ''aa:bb''\<rparr> = Inr ''uEgKquw''
   \<and> ValueForProtocol example_maddr P_CERTHASH = Inr ''uEgKquw''
   \<and> DecodeRemoteFingerprint example_maddr
       = Inr \<lparr>Code = SHA2_256, Length = 2, Digest = [0xaa, 0xbb]\<rparr>"
proof -
  have l: "length [0xaa, 0xbb :: byte] < 2 ^ 31" by simp
  have e: "EncodeDTLSFingerprint \<lparr>Algorithm = ''sha-256'', Value = ''aa:bb''\<rparr> = Inr ''uEgKquw''"
    by (simp add: EncodeDTLSFingerprint_def hex_byte_def fromHexChar_def
        mh_Encode_def multibase_Encode_def SHA2_256_def PutUvarint_small encodeURL_def Let_def)
  have v: "ValueForProtocol example_maddr P_CERTHASH = Inr ''uEgKquw''"
    by (simp add: P_CERTHASH_def example_maddr_def)
  from fingerprint_roundtrip [OF l, of "''sha-256''"] e v
  have "DecodeRemoteFingerprint example_maddr
       = Inr \<lparr>Code = SHA2_256, Length = 2, Digest = [0xaa, 0xbb]\<rparr>"
    by (simp add: hexdigit_def)
  with l e v show ?thesis by blast
qed

section \<open>Reading from a stream\<close>

lemma Read_load_append_EOF:
  assumes "Read_load len_b read pre s = (Blocked, s_mid)"
  shows "Read_load len_b read (pre @ (others, ReadMsg_error io_EOF) # rest) s
           = (let s1 = run_others others s_mid
              in if receiveState s1 = receiveStateDataRead
                 then (Returned 0 [] (Some io_EOF), s1)
                 else (Returned 0 [] (Some network_ErrReset), s1\<lparr>receiveState := receiveStateReset\<rparr>))"
  using assms
proof (induction pre arbitrary: s)
  case Nil
  then show ?case by (simp add: Let_def)
next
  case (Cons c pre)
  obtain os res where c: "c = (os, res)" by (cases c)
  show ?case
  proof (cases res)
    case (ReadMsg_error e)
    with Cons.prems show ?thesis
      by (auto simp: c Let_def split: if_splits)
  next
    case (Msg msg)
    let ?s1 = "(run_others os s)\<lparr>nextMessage := Some msg\<rparr>"
    obtain r2 s2 where d: "drain_nextMessage len_b read msg ?s1 = (r2, s2)"
      by (cases "drain_nextMessage len_b read msg ?s1")
    show ?thesis
    proof (cases r2)
      case None
      with Cons.prems have "Read_load len_b read pre s2 = (Blocked, s_mid)"
        by (simp add: c Msg d Let_def)
      from Cons.IH [OF this] show ?thesis
        by (simp add: c Msg d None Let_def)
    next
      case (Some a)
      with Cons.prems have "a = Blocked" by (simp add: c Msg d Let_def)
      with d Some show ?thesis
        by (auto simp: drain_nextMessage_def Let_def split: if_splits receiveState.splits)
    qed
  qed
qed

text \<open>
  C7. Take a \<^verbatim>\<open>Read\<close> that has consumed the calls \<open>pre\<close> of \<^verbatim>\<open>ReadMsg\<close> and is
  waiting in the next one. If that call returns \<^verbatim>\<open>io.EOF\<close>, after other goroutines
  ran the operations \<open>others\<close>, then \<^verbatim>\<open>Read\<close> returns 0 bytes and: \<^verbatim>\<open>io.EOF\<close>
  with the state unchanged if the receive state is data-read when the mutex is
  taken again; otherwise \<^verbatim>\<open>network.ErrReset\<close>, with the receive state set to
  reset.
\<close>

theorem Read_EOF_from_channel:
  assumes "Read len_b pre s = (Blocked, s_mid)"
  shows "Read len_b (pre @ (others, ReadMsg_error io_EOF) # rest) s
           = (let s1 = run_others others s_mid
              in if receiveState s1 = receiveStateDataRead
                 then (Returned 0 [] (Some io_EOF), s1)
                 else (Returned 0 [] (Some network_ErrReset), s1\<lparr>receiveState := receiveStateReset\<rparr>))"
proof -
  from assms have g: "closeErr s = None" "receiveState s = receiveStateReceiving" "len_b \<noteq> 0"
    and l: "Read_loop len_b 0 pre s = (Blocked, s_mid)"
    by (auto simp: Read_def split: if_splits receiveState.splits)
  show ?thesis
  proof (cases "nextMessage s")
    case None
    with l have "Read_load len_b 0 pre s = (Blocked, s_mid)" by (simp add: Read_loop_def)
    from Read_load_append_EOF [OF this] g None show ?thesis
      by (simp add: Read_def Read_loop_def)
  next
    case (Some m)
    obtain r2 s2 where d: "drain_nextMessage len_b 0 m s = (r2, s2)"
      by (cases "drain_nextMessage len_b 0 m s")
    show ?thesis
    proof (cases r2)
      case None
      with l Some d have "Read_load len_b 0 pre s2 = (Blocked, s_mid)" by (simp add: Read_loop_def)
      from Read_load_append_EOF [OF this] g Some d None show ?thesis
        by (simp add: Read_def Read_loop_def)
    next
      case (Some a)
      with l \<open>nextMessage s = Some m\<close> d have "a = Blocked" by (simp add: Read_loop_def)
      with d Some show ?thesis
        by (auto simp: drain_nextMessage_def Let_def split: if_splits receiveState.splits)
    qed
  qed
qed

theorem Read_EOF_from_channel_witness:
  "Read 4 [([], Msg \<lparr>Flag = None, Message = []\<rparr>)] new_stream = (Blocked, new_stream)
   \<and> Read 4 ([([], Msg \<lparr>Flag = None, Message = []\<rparr>)] @ ([], ReadMsg_error io_EOF) # []) new_stream
       = (Returned 0 [] (Some network_ErrReset), new_stream\<lparr>receiveState := receiveStateReset\<rparr>)
   \<and> Read 4 ([([], Msg \<lparr>Flag = None, Message = []\<rparr>)]
               @ ([Op_IncomingFlag (Some Message_FIN)], ReadMsg_error io_EOF) # []) new_stream
       = (Returned 0 [] (Some io_EOF), new_stream\<lparr>receiveState := receiveStateDataRead\<rparr>)"
proof -
  have b: "Read 4 [([], Msg \<lparr>Flag = None, Message = []\<rparr>)] new_stream = (Blocked, new_stream)"
    by (simp add: Read_def Read_loop_def drain_nextMessage_def processIncomingFlag_def
          new_stream_def Let_def)
  from Read_EOF_from_channel [OF b, of "[]" "[]"]
       Read_EOF_from_channel [OF b, of "[Op_IncomingFlag (Some Message_FIN)]" "[]"] b
  show ?thesis
    by (simp add: processIncomingFlag_def new_stream_def Let_def)
qed

section \<open>Stream states never go back\<close>

lemma no_return_refl: "no_return s s"
  by (simp add: no_return_def)

lemma no_return_trans: "no_return s s' \<Longrightarrow> no_return s' s'' \<Longrightarrow> no_return s s''"
  by (auto simp: no_return_def)

lemma no_return_processIncomingFlag: "no_return s (processIncomingFlag f s)"
  by (auto simp: no_return_def processIncomingFlag_def split: option.splits Message_Flag.splits)

lemma no_return_run_other: "no_return s (run_other x s)"
  by (cases x)
     (auto simp: no_return_def CloseRead_def Write_def CloseWrite_def Reset_def writeMsgOnWriter_def
        processIncomingFlag_def split: option.splits Message_Flag.splits prod.splits if_splits)

lemma no_return_run_others: "no_return s (run_others xs s)"
proof (induction xs arbitrary: s)
  case Nil
  show ?case by (simp add: no_return_refl)
next
  case (Cons x xs)
  from no_return_run_other [of s x] Cons [of "run_other x s"] show ?case
    by (auto intro: no_return_trans)
qed

lemma no_return_nextMessage: "no_return s (s\<lparr>nextMessage := m\<rparr>)"
  by (simp add: no_return_def)

lemma no_return_drain: "drain_nextMessage len_b read m s = (r, s') \<Longrightarrow> no_return s s'"
  using no_return_processIncomingFlag [of s "Flag m"]
  by (auto simp: drain_nextMessage_def no_return_def Let_def split: if_splits receiveState.splits)

lemma no_return_Read_load: "Read_load len_b read calls s = (r, s') \<Longrightarrow> no_return s s'"
proof (induction calls arbitrary: s)
  case Nil
  then show ?case by (simp add: no_return_refl)
next
  case (Cons c calls)
  obtain others res where c: "c = (others, res)" by (cases c)
  let ?s1 = "run_others others s"
  have 1: "no_return s ?s1" by (rule no_return_run_others)
  show ?case
  proof (cases res)
    case (ReadMsg_error e)
    have "no_return ?s1 s'"
      using Cons.prems unfolding c ReadMsg_error
      by (auto simp: no_return_def Let_def split: if_splits)
    with 1 show ?thesis by (rule no_return_trans)
  next
    case (Msg msg)
    obtain r2 s2 where d: "drain_nextMessage len_b read msg (?s1\<lparr>nextMessage := Some msg\<rparr>) = (r2, s2)"
      by (cases "drain_nextMessage len_b read msg (?s1\<lparr>nextMessage := Some msg\<rparr>)")
    have 2: "no_return ?s1 s2"
      using no_return_nextMessage [of ?s1 "Some msg"] no_return_drain [OF d] by (rule no_return_trans)
    have "no_return s2 s'"
    proof (cases r2)
      case None
      with Cons.prems have "Read_load len_b read calls s2 = (r, s')"
        by (simp add: c Msg d Let_def)
      then show ?thesis by (rule Cons.IH)
    next
      case (Some a)
      with Cons.prems have "s' = s2" by (simp add: c Msg d Let_def)
      then show ?thesis by (simp add: no_return_refl)
    qed
    with 1 2 show ?thesis by (blast intro: no_return_trans)
  qed
qed

lemma no_return_Read: "no_return s (snd (Read len_b calls s))"
proof -
  have "no_return s s'" if "Read_loop len_b read calls s = (r, s')" for read r s'
  proof (cases "nextMessage s")
    case None
    with that show ?thesis by (simp add: Read_loop_def no_return_Read_load)
  next
    case (Some m)
    obtain r2 s2 where d: "drain_nextMessage len_b read m s = (r2, s2)"
      by (cases "drain_nextMessage len_b read m s")
    show ?thesis
    proof (cases r2)
      case None
      with that Some d have "Read_load len_b read calls s2 = (r, s')"
        by (simp add: Read_loop_def)
      then have "no_return s2 s'" by (rule no_return_Read_load)
      with no_return_drain [OF d] show ?thesis by (rule no_return_trans)
    next
      case (Some a)
      with that \<open>nextMessage s = Some m\<close> d have "s' = s2" by (simp add: Read_loop_def)
      with no_return_drain [OF d] show ?thesis by simp
    qed
  qed
  then show ?thesis
    by (cases "Read_loop len_b 0 calls s")
       (auto simp: Read_def no_return_refl split: receiveState.splits)
qed

lemma no_return_run_op: "no_return s (run_op x s)"
  by (cases x) (simp_all add: no_return_Read no_return_run_other)

lemma no_return_run_ops: "no_return s (run_ops xs s)"
proof (induction xs arbitrary: s)
  case Nil
  show ?case by (simp add: no_return_refl)
next
  case (Cons x xs)
  from no_return_run_op [of s x] Cons [of "run_op x s"] show ?case
    by (auto intro: no_return_trans)
qed

text \<open>
  C8. Along any sequence of operations on a stream (reads with whatever the
  channel delivers and whatever runs while the mutex is released, \<^verbatim>\<open>CloseRead\<close>,
  incoming flags, writes, \<^verbatim>\<open>CloseWrite\<close>, \<^verbatim>\<open>Reset\<close>), once the receive state is
  not receiving it is not receiving at any later point, and once the send state is
  not sending it is not sending at any later point.
\<close>

theorem stream_states_monotone:
  "(receiveState (run_ops pre s) \<noteq> receiveStateReceiving
      \<longrightarrow> receiveState (run_ops post (run_ops pre s)) \<noteq> receiveStateReceiving)
   \<and> (sendState (run_ops pre s) \<noteq> sendStateSending
      \<longrightarrow> sendState (run_ops post (run_ops pre s)) \<noteq> sendStateSending)"
  using no_return_run_ops [of "run_ops pre s" post] by (simp add: no_return_def)

theorem stream_states_monotone_witness:
  "receiveState (run_ops [Op_Other (Op_CloseRead None), Op_Other (Op_CloseWrite None)] new_stream)
     = receiveStateReset
   \<and> sendState (run_ops [Op_Other (Op_CloseRead None), Op_Other (Op_CloseWrite None)] new_stream)
     = sendStateClosed
   \<and> receiveState (run_ops [Op_Read 4 [([], Msg \<lparr>Flag = Some Message_FIN, Message = []\<rparr>)],
                           Op_Other (Op_IncomingFlag (Some Message_FIN)),
                           Op_Other (Op_Write None [1])]
        (run_ops [Op_Other (Op_CloseRead None), Op_Other (Op_CloseWrite None)] new_stream))
     \<noteq> receiveStateReceiving
   \<and> sendState (run_ops [Op_Read 4 [([], Msg \<lparr>Flag = Some Message_FIN, Message = []\<rparr>)],
                        Op_Other (Op_IncomingFlag (Some Message_FIN)),
                        Op_Other (Op_Write None [1])]
        (run_ops [Op_Other (Op_CloseRead None), Op_Other (Op_CloseWrite None)] new_stream))
     \<noteq> sendStateSending"
proof -
  have a: "receiveState (run_ops [Op_Other (Op_CloseRead None), Op_Other (Op_CloseWrite None)] new_stream)
     = receiveStateReset"
    and b: "sendState (run_ops [Op_Other (Op_CloseRead None), Op_Other (Op_CloseWrite None)] new_stream)
     = sendStateClosed"
    by (simp_all add: CloseRead_def CloseWrite_def writeMsgOnWriter_def new_stream_def)
  from stream_states_monotone
         [of "[Op_Other (Op_CloseRead None), Op_Other (Op_CloseWrite None)]" new_stream
             "[Op_Read 4 [([], Msg \<lparr>Flag = Some Message_FIN, Message = []\<rparr>)],
               Op_Other (Op_IncomingFlag (Some Message_FIN)),
               Op_Other (Op_Write None [1])]"]
       a b
  show ?thesis by simp
qed

section \<open>Unsupported certhash\<close>

text \<open>
  C9. When the certhash of the remote multiaddress decodes to a multihash whose
  code the table of supported hashes does not have, \<^verbatim>\<open>dial\<close> returns no
  connection and the non-nil error \<^verbatim>\<open>unsupported hash function\<close> (an
  \<^verbatim>\<open>Errorf\<close> that wraps nil), and no peer connection has been created.
\<close>

theorem dial_unsupported_hash:
  assumes "DecodeRemoteFingerprint maddr = Inr mh"
    and "env_GetSupportedSDPHash env (Code mh) = None"
  shows "dial env t maddr p
           = \<lparr>ret_conn = None, ret_err = Some (Errorf ''unsupported hash function'' None), trace = []\<rparr>
         \<and> ret_err (dial env t maddr p) \<noteq> None
         \<and> PeerConnectionCreated \<notin> set (trace (dial env t maddr p))"
  using assms by (simp add: dial_def dial_body_def)

theorem dial_unsupported_hash_witness:
  "DecodeRemoteFingerprint unknown_code_maddr = Inr \<lparr>Code = 0xFF, Length = 2, Digest = [0xaa, 0xbb]\<rparr>
   \<and> env_GetSupportedSDPHash ok_env 0xFF = None
   \<and> dial ok_env fresh_transport unknown_code_maddr ''QmRemote''
       = \<lparr>ret_conn = None, ret_err = Some (Errorf ''unsupported hash function'' None), trace = []\<rparr>"
proof -
  have g: "env_GetSupportedSDPHash ok_env (Code \<lparr>Code = 0xFF, Length = 2, Digest = [0xaa, 0xbb :: byte]\<rparr>) = None"
    by (simp add: ok_env_fields GetSupportedSDPHash_table_def)
  from dial_unsupported_hash [OF decode_unknown_code_maddr g, of fresh_transport "''QmRemote''"] g
  show ?thesis
    by (simp add: decode_unknown_code_maddr)
qed

section \<open>Construction\<close>

text \<open>
  C10. With a non-nil pre-shared key \<open>New\<close> returns the private-networks error
  before anything is built, whatever the key, the environment and the options
  are; so whenever \<open>New\<close> returns a transport, the key was nil.
\<close>

theorem New_rejects_psk:
  "New env k (Some psk) opts = Inl (Errorf ''WebRTC doesn't support private networks yet'' None)
   \<and> (\<forall>t. New env k psk' opts = Inr t \<longrightarrow> psk' = None)"
  by (auto simp: New_def)

theorem New_rejects_psk_witness:
  "New ok_new_env [1, 2, 3] (Some []) [] = Inl (Errorf ''WebRTC doesn't support private networks yet'' None)
   \<and> New ok_new_env [1, 2, 3] None [] = Inr fresh_transport
   \<and> (None :: PSK option) = None"
  using New_rejects_psk [of ok_new_env "[1, 2, 3]" "[]" "[]" None]
  by (simp add: New_def ok_new_env_def fresh_transport_def)

end
